theory Spec2Isabelle
  imports
    Complex_Main
    "HOL-Library.Char_ord"
    "HOL-Library.List_Lexorder"
    "HOL-Library.Product_Lexorder"
begin

section \<open>Values of the Python runtime\<close>

text \<open>
  \<^bold>\<open>Decimal.\<close> A \<open>decimal.Decimal\<close> is modelled by the rational number it denotes;
  \<open>+\<close>, \<open>-\<close>, \<open>*\<close> and comparison are the exact operations. (The default context of
  Python rounds a result to 28 significant digits; that rounding is not modelled.)
  \<open>Decimal.quantize(Decimal('0.001'))\<close> rounds to three places, ties to even.

  \<^bold>\<open>float.\<close> A finite float is modelled by the rational number it denotes. What the
  IEEE arithmetic and the C library do is a parameter of the model, the record
  \<open>float_ops\<close>: \<open>fround\<close> maps a real result to the nearest float (so \<open>x + y\<close> on
  floats is \<open>fround (x + y)\<close>, and the literal \<open>0.6\<close> is \<open>fround (3/5)\<close>),
  \<open>sin_pi_12 d\<close> is the float \<open>math.sin(math.pi * d / 12)\<close>, and \<open>frepr x\<close> is the
  number \<open>Decimal(str(x))\<close>. Every theorem below holds for every \<open>float_ops\<close>.

  \<^bold>\<open>datetime.\<close> A datetime is the number of microseconds of its wall clock since
  1970-01-01T00:00:00; \<open>timedelta\<close> arithmetic is addition.
\<close>

type_synonym decimal = rat
type_synonym pyfloat = rat
type_synonym datetime = int

record float_ops =
  fround :: "rat \<Rightarrow> pyfloat"
  sin_pi_12 :: "int \<Rightarrow> pyfloat"
  frepr :: "pyfloat \<Rightarrow> decimal"

definition fadd :: "float_ops \<Rightarrow> pyfloat \<Rightarrow> pyfloat \<Rightarrow> pyfloat" where
  "fadd fo x y = fround fo (x + y)"

definition fsub :: "float_ops \<Rightarrow> pyfloat \<Rightarrow> pyfloat \<Rightarrow> pyfloat" where
  "fsub fo x y = fround fo (x - y)"

definition fmul :: "float_ops \<Rightarrow> pyfloat \<Rightarrow> pyfloat \<Rightarrow> pyfloat" where
  "fmul fo x y = fround fo (x * y)"

definition float_of_decimal :: "float_ops \<Rightarrow> decimal \<Rightarrow> pyfloat" where
  "float_of_decimal fo d = fround fo d"

text \<open>
  A \<open>float_ops\<close> to compute with: no rounding, and the table of the thirteen values
  of \<open>repr(math.sin(math.pi * d / 12))\<close> that CPython prints. It agrees with Python
  wherever the arithmetic is exact, in particular at \<open>sin_pi_12 0 = 0\<close>.
\<close>

definition exact_sin_pi_12 :: "int \<Rightarrow> pyfloat" where
  "exact_sin_pi_12 d =
     (if d = 0 then 0
      else if d = 1 then 25881904510252074 / 10 ^ 17
      else if d = 2 then 49999999999999994 / 10 ^ 17
      else if d = 3 then 7071067811865475 / 10 ^ 16
      else if d = 4 then 8660254037844386 / 10 ^ 16
      else if d = 5 then 9659258262890683 / 10 ^ 16
      else if d = 6 then 1
      else if d = 7 then 9659258262890683 / 10 ^ 16
      else if d = 8 then 8660254037844387 / 10 ^ 16
      else if d = 9 then 7071067811865476 / 10 ^ 16
      else if d = 10 then 49999999999999994 / 10 ^ 17
      else if d = 11 then 258819045102521 / 10 ^ 15
      else 12246467991473532 / 10 ^ 32)"

definition exact_floats :: float_ops where
  "exact_floats = \<lparr>fround = (\<lambda>x. x), sin_pi_12 = exact_sin_pi_12, frepr = (\<lambda>x. x)\<rparr>"

definition round_half_even :: "rat \<Rightarrow> int" where
  "round_half_even x =
     (let f = \<lfloor>x\<rfloor>; d = x - of_int f
      in if d < 1 / 2 then f
         else if 1 / 2 < d then f + 1
         else if even f then f else f + 1)"

definition quantize3 :: "decimal \<Rightarrow> decimal" where
  "quantize3 x = of_int (round_half_even (x * 1000)) / 1000"

definition us_per_hour :: int where
  "us_per_hour = 3600000000"

definition us_per_day :: int where
  "us_per_day = 24 * us_per_hour"

definition replace_top_of_hour :: "datetime \<Rightarrow> datetime" where
  "replace_top_of_hour t = t - t mod us_per_hour"

definition add_hours :: "datetime \<Rightarrow> int \<Rightarrow> datetime" where
  "add_hours t h = t + h * us_per_hour"

definition dt_hour :: "datetime \<Rightarrow> int" where
  "dt_hour t = (t div us_per_hour) mod 24"

definition month_of_days :: "int \<Rightarrow> int" where
  "month_of_days z =
     (let z1 = z + 719468;
          era = z1 div 146097;
          doe = z1 - era * 146097;
          yoe = (doe - doe div 1460 + doe div 36524 - doe div 146096) div 365;
          doy = doe - (365 * yoe + yoe div 4 - yoe div 100);
          mp = (5 * doy + 2) div 153
      in if mp < 10 then mp + 3 else mp - 9)"

definition dt_month :: "datetime \<Rightarrow> int" where
  "dt_month t = month_of_days (t div us_per_day)"

datatype error =
    ValueError string
  | TypeError string
  | IntegrityError string
  | DatabaseError string
  | PythonException string
  | ForecastServiceError string
  | PortfolioNotFoundError string
  | EmptyPortfolioError string
  | JobNotFoundError string
  | SiteDoesNotExist string

fun str_of_error :: "error \<Rightarrow> string" where
  "str_of_error (ValueError m) = m"
| "str_of_error (TypeError m) = m"
| "str_of_error (IntegrityError m) = m"
| "str_of_error (DatabaseError m) = m"
| "str_of_error (PythonException m) = m"
| "str_of_error (ForecastServiceError m) = m"
| "str_of_error (PortfolioNotFoundError m) = m"
| "str_of_error (EmptyPortfolioError m) = m"
| "str_of_error (JobNotFoundError m) = m"
| "str_of_error (SiteDoesNotExist m) = m"

section \<open>forecast\_engine.py\<close>

subsection \<open>The random source\<close>

text \<open>
  \<open>random.Random(seed)\<close> is a library object: the sequence of floats that
  \<open>random()\<close> returns is a function of the seed. That function is the parameter
  \<open>gen\<close>; with no seed the generator seeds itself from the operating system, the
  parameter \<open>entropy\<close>. The state of a generator is its sequence and its position.
\<close>

record rng =
  rng_seq :: "nat \<Rightarrow> pyfloat"
  rng_pos :: nat

definition random :: "rng \<Rightarrow> pyfloat \<times> rng" where
  "random r = (rng_seq r (rng_pos r), r\<lparr>rng_pos := Suc (rng_pos r)\<rparr>)"

definition Random :: "(int \<Rightarrow> nat \<Rightarrow> pyfloat) \<Rightarrow> int \<Rightarrow> int option \<Rightarrow> rng" where
  "Random gen entropy seed =
     \<lparr>rng_seq = gen (case seed of None \<Rightarrow> entropy | Some s \<Rightarrow> s), rng_pos = 0\<rparr>"

subsection \<open>Sites and forecast points\<close>

record site =
  site_id :: int
  site_name :: string
  site_type :: string
  capacity_mw :: "decimal option"

record forecast_point =
  fp_datetime :: datetime
  fp_predicted_generation_mwh :: decimal
  fp_confidence_interval_lower :: "decimal option"
  fp_confidence_interval_upper :: "decimal option"

subsection \<open>RandomForecastModel\<close>

definition RandomForecastModel_init ::
  "(int \<Rightarrow> nat \<Rightarrow> pyfloat) \<Rightarrow> int \<Rightarrow> int option \<Rightarrow> rng" where
  "RandomForecastModel_init gen entropy seed = Random gen entropy seed"

definition generate_solar_prediction ::
  "float_ops \<Rightarrow> decimal \<Rightarrow> datetime \<Rightarrow> rng \<Rightarrow> decimal \<times> rng" where
  "generate_solar_prediction fo base_capacity forecast_datetime r =
     (let hour_of_day = dt_hour forecast_datetime
      in if hour_of_day < 6 \<or> hour_of_day > 18 then (0, r)
         else
           let daylight_hour = hour_of_day - 6;
               base_pattern = sin_pi_12 fo daylight_hour;
               (u, r') = random r;
               random_factor = fadd fo 1 (fmul fo (fsub fo u (1 / 2)) (fround fo (3 / 5)));
               generation =
                 base_capacity * frepr fo base_pattern * (1 / 4) * frepr fo random_factor
           in (max 0 (quantize3 generation), r'))"

definition generate_wind_prediction ::
  "float_ops \<Rightarrow> decimal \<Rightarrow> datetime \<Rightarrow> rng \<Rightarrow> decimal \<times> rng" where
  "generate_wind_prediction fo base_capacity forecast_datetime r =
     (let base_factor = 3 / 10;
          (u, r') = random r;
          random_factor = fadd fo 1 (fmul fo (fsub fo u (1 / 2)) 1);
          month = dt_month forecast_datetime;
          seasonal_factor =
            (if month \<in> {11, 12, 1, 2, 3} then fround fo (6 / 5) else 1);
          generation =
            base_capacity * base_factor * frepr fo random_factor * frepr fo seasonal_factor
      in (max 0 (quantize3 generation), r'))"

definition generate_generic_prediction ::
  "float_ops \<Rightarrow> decimal \<Rightarrow> rng \<Rightarrow> decimal \<times> rng" where
  "generate_generic_prediction fo base_capacity r =
     (let (random_factor, r') = random r;
          generation = base_capacity * (1 / 5) * frepr fo random_factor
      in (max 0 (quantize3 generation), r'))"

text \<open>
  One pass of the body of \<open>for hour in range(forecast_horizon)\<close>, up to the
  \<open>append\<close>, and the loop, which appends the point to \<open>forecast_points\<close>.
\<close>

definition predict_point ::
  "float_ops \<Rightarrow> site \<Rightarrow> decimal \<Rightarrow> datetime \<Rightarrow> nat \<Rightarrow> rng \<Rightarrow> forecast_point \<times> rng" where
  "predict_point fo s base_capacity start_time hour r =
     (let forecast_datetime = add_hours start_time (int hour);
          (predicted_mwh, r') =
            (if site_type s = ''solar''
               then generate_solar_prediction fo base_capacity forecast_datetime r
             else if site_type s = ''wind''
               then generate_wind_prediction fo base_capacity forecast_datetime r
             else generate_generic_prediction fo base_capacity r);
          confidence_range = predicted_mwh * (2 / 10);
          lower_bound = max 0 (predicted_mwh - confidence_range);
          upper_bound = predicted_mwh + confidence_range
      in (\<lparr>fp_datetime = forecast_datetime,
           fp_predicted_generation_mwh = predicted_mwh,
           fp_confidence_interval_lower = Some lower_bound,
           fp_confidence_interval_upper = Some upper_bound\<rparr>, r'))"

fun predict_loop ::
  "float_ops \<Rightarrow> site \<Rightarrow> decimal \<Rightarrow> datetime \<Rightarrow> nat list \<Rightarrow> forecast_point list \<Rightarrow> rng
     \<Rightarrow> forecast_point list \<times> rng" where
  "predict_loop fo s base_capacity start_time [] forecast_points r = (forecast_points, r)"
| "predict_loop fo s base_capacity start_time (hour # hours) forecast_points r =
     (let (p, r1) = predict_point fo s base_capacity start_time hour r
      in predict_loop fo s base_capacity start_time hours (forecast_points @ [p]) r1)"

text \<open>
  \<open>RandomForecastModel.predict\<close>. The argument \<open>now\<close> is the value that
  \<open>timezone.now()\<close> returns in the call; the site is \<open>None\<close> or a \<open>Site\<close> object
  (a Django model instance is always truthy). The result is the raised exception
  or the returned list, with the state of the generator after the call.
\<close>

definition predict ::
  "float_ops \<Rightarrow> rng \<Rightarrow> site option \<Rightarrow> int \<Rightarrow> datetime \<Rightarrow> (error + forecast_point list) \<times> rng" where
  "predict fo r site_arg forecast_horizon now =
     (case site_arg of
        None \<Rightarrow> (Inl (ValueError ''Site cannot be None''), r)
      | Some s \<Rightarrow>
          if forecast_horizon \<le> 0
            then (Inl (ValueError ''Forecast horizon must be positive''), r)
          else
            let base_capacity =
                  (case capacity_mw s of
                     None \<Rightarrow> 10
                   | Some c \<Rightarrow> if c = 0 then 10 else c);
                start_time = replace_top_of_hour now;
                (ps, r') =
                  predict_loop fo s base_capacity start_time [0..<nat forecast_horizon] [] r
            in (Inr ps, r'))"


subsection \<open>Python dictionaries and strings\<close>

text \<open>
  A \<open>dict\<close> keeps its keys in insertion order: it is an association list in which
  a key occurs once. \<open>dict_set\<close> is \<open>d[k] = v\<close>, \<open>dict_modify\<close> changes the
  value under a key that is present, \<open>dict_del\<close> is \<open>del d[k]\<close>.
\<close>

primrec dict_set :: "'k \<Rightarrow> 'v \<Rightarrow> ('k \<times> 'v) list \<Rightarrow> ('k \<times> 'v) list" where
  "dict_set k v [] = [(k, v)]"
| "dict_set k v (p # ps) = (if fst p = k then (k, v) # ps else p # dict_set k v ps)"

primrec dict_modify :: "'k \<Rightarrow> ('v \<Rightarrow> 'v) \<Rightarrow> ('k \<times> 'v) list \<Rightarrow> ('k \<times> 'v) list" where
  "dict_modify k f [] = []"
| "dict_modify k f (p # ps) =
     (if fst p = k then (k, f (snd p)) # ps else p # dict_modify k f ps)"

definition dict_del :: "'k \<Rightarrow> ('k \<times> 'v) list \<Rightarrow> ('k \<times> 'v) list" where
  "dict_del k d = filter (\<lambda>p. fst p \<noteq> k) d"

definition dict_keys :: "('k \<times> 'v) list \<Rightarrow> 'k list" where
  "dict_keys d = map fst d"

definition dict_values :: "('k \<times> 'v) list \<Rightarrow> 'v list" where
  "dict_values d = map snd d"

text \<open>
  \<open>str.lower()\<close> on the ASCII letters; a \<open>char\<close> is a byte and every other byte
  is left as it is.
\<close>

definition is_upper :: "char \<Rightarrow> bool" where
  "is_upper c = (65 \<le> (of_char c :: nat) \<and> (of_char c :: nat) \<le> 90)"

definition is_lower :: "char \<Rightarrow> bool" where
  "is_lower c = (97 \<le> (of_char c :: nat) \<and> (of_char c :: nat) \<le> 122)"

definition lower_char :: "char \<Rightarrow> char" where
  "lower_char c = (if is_upper c then char_of ((of_char c :: nat) + 32) else c)"

definition upper_char :: "char \<Rightarrow> char" where
  "upper_char c = (if is_lower c then char_of ((of_char c :: nat) - 32) else c)"

definition lower :: "string \<Rightarrow> string" where
  "lower s = map lower_char s"

fun str_of_digit :: "nat \<Rightarrow> char" where
  "str_of_digit n = char_of (48 + n)"

fun str_of_nat :: "nat \<Rightarrow> string" where
  "str_of_nat n = (if n < 10 then [str_of_digit n] else str_of_nat (n div 10) @ [str_of_digit (n mod 10)])"

definition str_of_int :: "int \<Rightarrow> string" where
  "str_of_int i = (if i < 0 then CHR ''-'' # str_of_nat (nat (- i)) else str_of_nat (nat i))"

subsection \<open>Forecast models and the ModelRegistry\<close>

text \<open>
  A \<open>ForecastModel\<close> is a \<open>RandomForecastModel\<close>, whose state is its generator, or
  a model of another class, given by its name and by what its \<open>predict\<close> returns or
  raises for a site, a horizon and the time of the call. Model objects live in a
  heap, since the registry holds references and \<open>predict\<close> changes the generator
  of the object it is called on. \<open>NonModelObj\<close> is any object whose class does not
  derive from \<open>ForecastModel\<close>.
\<close>

datatype forecast_model =
    RandomForecastModel rng
  | CustomModel string "site option \<Rightarrow> int \<Rightarrow> datetime \<Rightarrow> error + forecast_point list"

datatype py_object = ForecastModelObj forecast_model | NonModelObj

type_synonym ref = nat

definition heap_get :: "py_object list \<Rightarrow> ref \<Rightarrow> py_object" where
  "heap_get hp a = (if a < length hp then hp ! a else NonModelObj)"

definition heap_new :: "py_object \<Rightarrow> py_object list \<Rightarrow> ref \<times> py_object list" where
  "heap_new obj hp = (length hp, hp @ [obj])"

definition isinstance_ForecastModel :: "py_object list \<Rightarrow> ref \<Rightarrow> bool" where
  "isinstance_ForecastModel hp a =
     (case heap_get hp a of ForecastModelObj m \<Rightarrow> True | NonModelObj \<Rightarrow> False)"

fun get_model_name :: "forecast_model \<Rightarrow> string" where
  "get_model_name (RandomForecastModel r) = ''Random Generator v1.0''"
| "get_model_name (CustomModel name f) = name"

record model_registry =
  models :: "(string \<times> ref) list"
  default_model :: ref


definition get_model :: "model_registry \<Rightarrow> string \<Rightarrow> ref" where
  "get_model reg st =
     (case map_of (models reg) (lower st) of
        None \<Rightarrow> default_model reg
      | Some m \<Rightarrow> m)"


definition unregister_model :: "model_registry \<Rightarrow> string \<Rightarrow> bool \<times> model_registry" where
  "unregister_model reg st =
     (if lower st \<in> set (dict_keys (models reg))
        then (True, reg\<lparr>models := dict_del (lower st) (models reg)\<rparr>)
      else (False, reg))"

definition set_default_model ::
  "py_object list \<Rightarrow> model_registry \<Rightarrow> ref \<Rightarrow> error + model_registry" where
  "set_default_model hp reg model =
     (if \<not> isinstance_ForecastModel hp model
        then Inl (TypeError ''Model must be an instance of ForecastModel'')
      else Inr (reg\<lparr>default_model := model\<rparr>))"

text \<open>
  \<open>ModelRegistry.__init__\<close> creates three unseeded \<open>RandomForecastModel\<close> objects;
  \<open>e0\<close>, \<open>e1\<close>, \<open>e2\<close> are what the operating system seeds them with.
\<close>

definition ModelRegistry_init ::
  "(int \<Rightarrow> nat \<Rightarrow> pyfloat) \<Rightarrow> int \<Rightarrow> int \<Rightarrow> int \<Rightarrow> py_object list \<Rightarrow> model_registry \<times> py_object list" where
  "ModelRegistry_init gen e0 e1 e2 hp =
     (let (d, hp0) = heap_new (ForecastModelObj (RandomForecastModel (RandomForecastModel_init gen e0 None))) hp;
          (s, hp1) = heap_new (ForecastModelObj (RandomForecastModel (RandomForecastModel_init gen e1 None))) hp0;
          (w, hp2) = heap_new (ForecastModelObj (RandomForecastModel (RandomForecastModel_init gen e2 None))) hp1
      in (\<lparr>models = dict_set (lower ''wind'') w (dict_set (lower ''solar'') s []),
           default_model = d\<rparr>, hp2))"

text \<open>
  \<open>model.predict(site, forecast_horizon)\<close> on a reference: the call of the object's
  own method, with the heap after the call.
\<close>

definition model_predict ::
  "float_ops \<Rightarrow> py_object list \<Rightarrow> ref \<Rightarrow> site option \<Rightarrow> int \<Rightarrow> datetime
     \<Rightarrow> (error + forecast_point list) \<times> py_object list" where
  "model_predict fo hp a site_arg forecast_horizon now =
     (case heap_get hp a of
        ForecastModelObj (RandomForecastModel r) \<Rightarrow>
          (let (res, r') = predict fo r site_arg forecast_horizon now
           in (res, hp[a := ForecastModelObj (RandomForecastModel r')]))
      | ForecastModelObj (CustomModel name f) \<Rightarrow> (f site_arg forecast_horizon now, hp)
      | NonModelObj \<Rightarrow> (Inl (PythonException ''object has no attribute predict''), hp))"


section \<open>models.py and the database\<close>

text \<open>
  The tables of the relational store, each a list of rows in the order of the
  table. \<open>enforces_checks\<close> says whether the database backend enforces the check
  \<open>forecast_horizon >= 0\<close> that a \<open>PositiveIntegerField\<close> declares.
\<close>

datatype job_status = Pending | Running | Completed | Failed

record portfolio =
  portfolio_id :: int
  portfolio_name :: string

record forecast_job =
  job_id :: string
  job_portfolio :: int
  job_status :: job_status
  job_forecast_horizon :: int
  job_created_at :: datetime
  job_completed_at :: "datetime option"
  job_error_message :: string

record forecast_result =
  fr_job :: string
  fr_site :: int
  fr_forecast_datetime :: datetime
  fr_predicted_generation_mwh :: decimal
  fr_confidence_interval_lower :: "decimal option"
  fr_confidence_interval_upper :: "decimal option"

record database =
  site_table :: "site list"
  portfolio_table :: "portfolio list"
  portfolio_site_table :: "(int \<times> int) list"
  job_table :: "forecast_job list"
  result_table :: "forecast_result list"
  enforces_checks :: bool

definition is_complete :: "forecast_job \<Rightarrow> bool" where
  "is_complete j = (job_status j \<in> {Completed, Failed})"

definition is_successful :: "forecast_job \<Rightarrow> bool" where
  "is_successful j = (job_status j = Completed)"

text \<open>\<open>Portfolio.objects.get(id=portfolio_id)\<close>; \<open>None\<close> stands for \<open>DoesNotExist\<close>.\<close>

definition get_portfolio :: "database \<Rightarrow> int \<Rightarrow> portfolio option" where
  "get_portfolio d pid = find (\<lambda>p. portfolio_id p = pid) (portfolio_table d)"

text \<open>\<open>portfolio.sites.all()\<close>: the member sites, in the order of \<open>Site.Meta.ordering\<close>.\<close>

definition portfolio_sites :: "database \<Rightarrow> int \<Rightarrow> site list" where
  "portfolio_sites d pid =
     sort_key site_name
       (filter (\<lambda>s. (pid, site_id s) \<in> set (portfolio_site_table d)) (site_table d))"

definition get_site_count :: "database \<Rightarrow> int \<Rightarrow> nat" where
  "get_site_count d pid = length (portfolio_sites d pid)"

definition get_total_capacity :: "database \<Rightarrow> int \<Rightarrow> decimal" where
  "get_total_capacity d pid =
     (let caps = List.map_filter capacity_mw (portfolio_sites d pid)
      in if caps = [] \<or> sum_list caps = 0 then 0 else sum_list caps)"

text \<open>
  \<open>ForecastJob.objects.create(...)\<close> with the primary key \<open>uuid\<close> that
  \<open>uuid.uuid4()\<close> returned and the time \<open>now\<close> of \<open>auto_now_add\<close>.
\<close>

definition ForecastJob_create ::
  "string \<Rightarrow> datetime \<Rightarrow> int \<Rightarrow> int \<Rightarrow> database \<Rightarrow> error + forecast_job \<times> database" where
  "ForecastJob_create uuid now pid horizon d =
     (if enforces_checks d \<and> horizon < 0
        then Inl (IntegrityError ''CHECK constraint failed: forecast_horizon'')
      else if \<exists>j \<in> set (job_table d). job_id j = uuid
        then Inl (IntegrityError ''UNIQUE constraint failed: forecastjob.id'')
      else
        let job = \<lparr>job_id = uuid, job_portfolio = pid, job_status = Pending,
                     job_forecast_horizon = horizon, job_created_at = now,
                     job_completed_at = None, job_error_message = []\<rparr>
        in Inr (job, d\<lparr>job_table := job_table d @ [job]\<rparr>))"

text \<open>
  \<open>job.save(update_fields=[...])\<close>: the named fields of the row with the key of
  the object take the values of the object; Django raises when no row was updated.
\<close>

datatype job_field = F_status | F_completed_at | F_error_message

fun copy_field :: "forecast_job \<Rightarrow> job_field \<Rightarrow> forecast_job \<Rightarrow> forecast_job" where
  "copy_field j F_status row = row\<lparr>job_status := job_status j\<rparr>"
| "copy_field j F_completed_at row = row\<lparr>job_completed_at := job_completed_at j\<rparr>"
| "copy_field j F_error_message row = row\<lparr>job_error_message := job_error_message j\<rparr>"

definition update_rows :: "string \<Rightarrow> (forecast_job \<Rightarrow> forecast_job) \<Rightarrow> database \<Rightarrow> database" where
  "update_rows jid f d =
     d\<lparr>job_table := map (\<lambda>row. if job_id row = jid then f row else row) (job_table d)\<rparr>"

definition job_save :: "forecast_job \<Rightarrow> job_field list \<Rightarrow> database \<Rightarrow> error + database" where
  "job_save j update_fields d =
     (if \<exists>row \<in> set (job_table d). job_id row = job_id j
        then Inr (update_rows (job_id j) (fold (copy_field j) update_fields) d)
      else Inl (DatabaseError ''Save with update_fields did not affect any rows.''))"

text \<open>\<open>ForecastResult.objects.create(...)\<close> under \<open>unique_together\<close>.\<close>

definition ForecastResult_create :: "forecast_result \<Rightarrow> database \<Rightarrow> error + database" where
  "ForecastResult_create r d =
     (if \<exists>x \<in> set (result_table d).
           fr_job x = fr_job r \<and> fr_site x = fr_site r
           \<and> fr_forecast_datetime x = fr_forecast_datetime r
        then Inl (IntegrityError ''UNIQUE constraint failed: job, site, forecast_datetime'')
      else Inr (d\<lparr>result_table := result_table d @ [r]\<rparr>))"

section \<open>services.py\<close>

text \<open>
  The state that the service works on: the database, the heap of model objects
  and the global \<open>model_registry\<close>, and the clock, the sequence of the values that
  successive calls of \<open>timezone.now()\<close> return.
\<close>

record world =
  db :: database
  heap :: "py_object list"
  registry :: model_registry
  clock :: "nat \<Rightarrow> datetime"
  clock_reads :: nat

definition timezone_now :: "world \<Rightarrow> datetime \<times> world" where
  "timezone_now w = (clock w (clock_reads w), w\<lparr>clock_reads := Suc (clock_reads w)\<rparr>)"

record forecast_service =
  svc_forecast_horizon :: int

definition ForecastService_init :: "int option \<Rightarrow> forecast_service" where
  "ForecastService_init forecast_horizon =
     \<lparr>svc_forecast_horizon = (case forecast_horizon of None \<Rightarrow> 24 | Some h \<Rightarrow> h)\<rparr>"

text \<open>The loop \<open>for prediction in predictions\<close> of \<open>_process_forecast_job\<close>.\<close>

fun create_results ::
  "forecast_job \<Rightarrow> site \<Rightarrow> forecast_point list \<Rightarrow> database \<Rightarrow> error + database" where
  "create_results job s [] d = Inr d"
| "create_results job s (prediction # predictions) d =
     (case ForecastResult_create
             \<lparr>fr_job = job_id job, fr_site = site_id s,
              fr_forecast_datetime = fp_datetime prediction,
              fr_predicted_generation_mwh = fp_predicted_generation_mwh prediction,
              fr_confidence_interval_lower = fp_confidence_interval_lower prediction,
              fr_confidence_interval_upper = fp_confidence_interval_upper prediction\<rparr> d of
        Inl e \<Rightarrow> Inl e
      | Inr d' \<Rightarrow> create_results job s predictions d')"

text \<open>
  The loop \<open>for site in sites\<close>: the exception that ended it, if any, and the
  state it left. The clock is read once for each call of \<open>predict\<close>.
\<close>

fun forecast_sites ::
  "float_ops \<Rightarrow> forecast_job \<Rightarrow> int \<Rightarrow> site list \<Rightarrow> world \<Rightarrow> error option \<times> world" where
  "forecast_sites fo job forecast_horizon [] w = (None, w)"
| "forecast_sites fo job forecast_horizon (s # sites) w =
     (let model = get_model (registry w) (site_type s);
          (now, w1) = timezone_now w;
          (predictions, hp) = model_predict fo (heap w1) model (Some s) forecast_horizon now;
          w2 = w1\<lparr>heap := hp\<rparr>
      in case predictions of
           Inl e \<Rightarrow> (Some e, w2)
         | Inr ps \<Rightarrow>
             (case create_results job s ps (db w2) of
                Inl e \<Rightarrow> (Some e, w2)
              | Inr d \<Rightarrow> forecast_sites fo job forecast_horizon sites (w2\<lparr>db := d\<rparr>)))"

text \<open>The handler \<open>except Exception as e\<close> of \<open>_process_forecast_job\<close>.\<close>

definition process_failed ::
  "error \<Rightarrow> forecast_job \<Rightarrow> world \<Rightarrow> (error + unit) \<times> forecast_job \<times> world" where
  "process_failed e job w =
     (let error_message = str_of_error e;
          (now, w1) = timezone_now w;
          job' = job\<lparr>job_status := Failed, job_completed_at := Some now,
                      job_error_message := error_message\<rparr>
      in case job_save job' [F_status, F_completed_at, F_error_message] (db w1) of
           Inl e' \<Rightarrow> (Inl e', job', w1)
         | Inr d \<Rightarrow>
             (Inl (ForecastServiceError (''Forecast processing failed: '' @ error_message)),
              job', w1\<lparr>db := d\<rparr>))"

text \<open>
  \<open>ForecastService._process_forecast_job\<close>: what it raises or returns, the \<open>job\<close>
  object as it leaves it, and the state. An exception inside
  \<open>transaction.atomic()\<close> restores the database of the start of the block.
\<close>

definition process_forecast_job ::
  "float_ops \<Rightarrow> forecast_job \<Rightarrow> int \<Rightarrow> world \<Rightarrow> (error + unit) \<times> forecast_job \<times> world" where
  "process_forecast_job fo job forecast_horizon w =
     (let job1 = job\<lparr>job_status := Running\<rparr>
      in case job_save job1 [F_status] (db w) of
           Inl e \<Rightarrow> process_failed e job1 w
         | Inr d1 \<Rightarrow>
             let w1 = w\<lparr>db := d1\<rparr>;
                 sites = portfolio_sites d1 (job_portfolio job1)
             in if sites = []
                  then process_failed (EmptyPortfolioError ''Portfolio has no sites'') job1 w1
                else
                  let (exc, w2) = forecast_sites fo job1 forecast_horizon sites w1
                  in case exc of
                       Some e \<Rightarrow> process_failed e job1 (w2\<lparr>db := d1\<rparr>)
                     | None \<Rightarrow>
                         let (now, w3) = timezone_now w2;
                             job2 = job1\<lparr>job_status := Completed, job_completed_at := Some now\<rparr>
                         in case job_save job2 [F_status, F_completed_at] (db w3) of
                              Inl e \<Rightarrow> process_failed e job2 (w3\<lparr>db := d1\<rparr>)
                            | Inr d3 \<Rightarrow> (Inr (), job2, w3\<lparr>db := d3\<rparr>))"

text \<open>
  The \<open>except\<close> clauses of \<open>trigger_portfolio_forecast\<close>: the two portfolio errors
  pass, every other exception is wrapped.
\<close>

fun trigger_reraise :: "error \<Rightarrow> error" where
  "trigger_reraise (EmptyPortfolioError m) = EmptyPortfolioError m"
| "trigger_reraise (PortfolioNotFoundError m) = PortfolioNotFoundError m"
| "trigger_reraise e = ForecastServiceError (''Failed to trigger forecast: '' @ str_of_error e)"

text \<open>
  \<open>ForecastService.trigger_portfolio_forecast\<close>; \<open>uuid\<close> is the value of
  \<open>uuid.uuid4()\<close> for the new job.
\<close>

definition trigger_portfolio_forecast ::
  "float_ops \<Rightarrow> forecast_service \<Rightarrow> int \<Rightarrow> int option \<Rightarrow> string \<Rightarrow> world
     \<Rightarrow> (error + forecast_job) \<times> world" where
  "trigger_portfolio_forecast fo self pid forecast_horizon uuid w =
     (case get_portfolio (db w) pid of
        None \<Rightarrow>
          (Inl (PortfolioNotFoundError (''Portfolio with ID '' @ str_of_int pid @ '' not found'')), w)
      | Some p \<Rightarrow>
          if get_site_count (db w) pid = 0
            then (Inl (EmptyPortfolioError
                    (''Portfolio '' @ [CHR 0x27] @ portfolio_name p @ [CHR 0x27] @ '' (ID: ''
                       @ str_of_int pid @ '') has no sites'')), w)
          else
            let horizon =
                  (case forecast_horizon of
                     None \<Rightarrow> svc_forecast_horizon self
                   | Some h \<Rightarrow> if h = 0 then svc_forecast_horizon self else h);
                (now, w1) = timezone_now w
            in case ForecastJob_create uuid now pid horizon (db w1) of
                 Inl e \<Rightarrow> (Inl (trigger_reraise e), w1)
               | Inr (job, d) \<Rightarrow>
                   (case process_forecast_job fo job horizon (w1\<lparr>db := d\<rparr>) of
                      (Inl e, job', w2) \<Rightarrow> (Inl (trigger_reraise e), w2)
                    | (Inr u, job', w2) \<Rightarrow> (Inr job', w2)))"

definition cancel_forecast_job :: "string \<Rightarrow> world \<Rightarrow> (error + bool) \<times> world" where
  "cancel_forecast_job jid w =
     (case find (\<lambda>j. job_id j = jid) (job_table (db w)) of
        None \<Rightarrow> (Inl (JobNotFoundError (''Forecast job with ID '' @ jid @ '' not found'')), w)
      | Some job \<Rightarrow>
          if job_status job \<in> {Pending, Running} then
            let (now, w1) = timezone_now w;
                job' = job\<lparr>job_status := Failed, job_completed_at := Some now,
                            job_error_message := ''Job cancelled by user''\<rparr>
            in case job_save job' [F_status, F_completed_at, F_error_message] (db w1) of
                 Inl e \<Rightarrow> (Inl e, w1)
               | Inr d \<Rightarrow> (Inr True, w1\<lparr>db := d\<rparr>)
          else (Inr False, w))"

definition cleanup_old_jobs :: "int \<Rightarrow> world \<Rightarrow> nat \<times> world" where
  "cleanup_old_jobs days_old w =
     (let (now, w1) = timezone_now w;
          cutoff_date = now - days_old * us_per_day;
          old = (\<lambda>j. job_status j \<in> {Completed, Failed}
                   \<and> (case job_completed_at j of None \<Rightarrow> False | Some t \<Rightarrow> t < cutoff_date));
          old_jobs = filter old (job_table (db w1));
          job_count = length old_jobs
      in if job_count > 0
           then (job_count,
                 w1\<lparr>db := (db w1)\<lparr>
                    job_table := filter (\<lambda>j. \<not> old j) (job_table (db w1)),
                    result_table :=
                      filter (\<lambda>r. fr_job r \<notin> job_id ` set old_jobs) (result_table (db w1))\<rparr>\<rparr>)
         else (job_count, w1))"


subsection \<open>get\_portfolio\_forecast\_results\<close>

record forecast_data =
  fd_datetime :: datetime
  fd_predicted_generation_mwh :: pyfloat
  fd_confidence_interval_lower :: pyfloat
  fd_confidence_interval_upper :: pyfloat

record site_forecast =
  sf_site_id :: int
  sf_site_name :: string
  sf_site_type :: string
  sf_capacity_mw :: pyfloat
  sf_forecasts :: "forecast_data list"

record portfolio_total =
  pt_datetime :: datetime
  total_predicted_mwh :: pyfloat
  total_confidence_lower :: pyfloat
  total_confidence_upper :: pyfloat

record portfolio_forecast =
  pf_job_id :: string
  pf_portfolio_id :: int
  pf_portfolio_name :: string
  pf_forecast_generated_at :: "datetime option"
  pf_site_count :: nat
  pf_total_capacity_mw :: pyfloat
  pf_site_forecasts :: "site_forecast list"
  pf_portfolio_totals :: "portfolio_total list"

text \<open>\<open>x or 0\<close> for an optional Decimal.\<close>

definition or_zero :: "decimal option \<Rightarrow> decimal" where
  "or_zero x = (case x of None \<Rightarrow> 0 | Some v \<Rightarrow> if v = 0 then 0 else v)"

text \<open>
  \<open>ForecastJob.objects.filter(portfolio=..., status='completed')
  .order_by('-completed_at').first()\<close>: a completed job of the portfolio with the
  greatest completion time, the first such row of the table.
\<close>

definition later_than :: "forecast_job \<Rightarrow> forecast_job \<Rightarrow> bool" where
  "later_than a b =
     (case (job_completed_at a, job_completed_at b) of
        (Some x, Some y) \<Rightarrow> y < x
      | (Some x, None) \<Rightarrow> True
      | (None, _) \<Rightarrow> False)"

fun first_latest :: "forecast_job list \<Rightarrow> forecast_job option" where
  "first_latest [] = None"
| "first_latest (j # js) =
     (case first_latest js of
        None \<Rightarrow> Some j
      | Some k \<Rightarrow> if later_than k j then Some k else Some j)"

definition latest_completed_job :: "database \<Rightarrow> int \<Rightarrow> forecast_job option" where
  "latest_completed_job d pid =
     first_latest (filter (\<lambda>j. job_portfolio j = pid \<and> job_status j = Completed) (job_table d))"

text \<open>
  \<open>ForecastResult.objects.filter(job=job).select_related('site')
  .order_by('site__name', 'forecast_datetime')\<close>: the rows of the job, each with
  the row of its site, in the order of the pair of keys.
\<close>

definition result_key :: "forecast_result \<times> site \<Rightarrow> string \<times> datetime" where
  "result_key x = (site_name (snd x), fr_forecast_datetime (fst x))"

definition job_results :: "database \<Rightarrow> string \<Rightarrow> (forecast_result \<times> site) list" where
  "job_results d jid =
     sort_key result_key
       (List.map_filter
          (\<lambda>r. if fr_job r = jid
                then map_option (Pair r) (find (\<lambda>s. site_id s = fr_site r) (site_table d))
                else None)
          (result_table d))"

definition forecast_data_of :: "float_ops \<Rightarrow> forecast_result \<Rightarrow> forecast_data" where
  "forecast_data_of fo result =
     \<lparr>fd_datetime = fr_forecast_datetime result,
      fd_predicted_generation_mwh = float_of_decimal fo (fr_predicted_generation_mwh result),
      fd_confidence_interval_lower =
        float_of_decimal fo (or_zero (fr_confidence_interval_lower result)),
      fd_confidence_interval_upper =
        float_of_decimal fo (or_zero (fr_confidence_interval_upper result))\<rparr>"

text \<open>The body of \<open>for result in results\<close>, on the two dictionaries.\<close>

definition collect_result ::
  "float_ops \<Rightarrow> (string \<times> site_forecast) list \<times> (datetime \<times> portfolio_total) list
     \<Rightarrow> forecast_result \<times> site
     \<Rightarrow> (string \<times> site_forecast) list \<times> (datetime \<times> portfolio_total) list" where
  "collect_result fo acc x =
     (let (site_forecasts, total_by_datetime) = acc;
          (result, s) = x;
          name = site_name s;
          site_forecasts1 =
            (if name \<notin> set (dict_keys site_forecasts)
               then dict_set name
                      \<lparr>sf_site_id = site_id s, sf_site_name = name, sf_site_type = site_type s,
                       sf_capacity_mw = float_of_decimal fo (or_zero (capacity_mw s)),
                       sf_forecasts = []\<rparr> site_forecasts
             else site_forecasts);
          data = forecast_data_of fo result;
          site_forecasts2 =
            dict_modify name (\<lambda>e. e\<lparr>sf_forecasts := sf_forecasts e @ [data]\<rparr>) site_forecasts1;
          dt_key = fr_forecast_datetime result;
          total1 =
            (if dt_key \<notin> set (dict_keys total_by_datetime)
               then dict_set dt_key
                      \<lparr>pt_datetime = dt_key, total_predicted_mwh = 0,
                       total_confidence_lower = 0, total_confidence_upper = 0\<rparr> total_by_datetime
             else total_by_datetime);
          total2 =
            dict_modify dt_key
              (\<lambda>t. t\<lparr>total_predicted_mwh :=
                         fadd fo (total_predicted_mwh t) (fd_predicted_generation_mwh data),
                       total_confidence_lower :=
                         fadd fo (total_confidence_lower t) (fd_confidence_interval_lower data),
                       total_confidence_upper :=
                         fadd fo (total_confidence_upper t) (fd_confidence_interval_upper data)\<rparr>)
              total1
      in (site_forecasts2, total2))"

definition get_portfolio_forecast_results ::
  "float_ops \<Rightarrow> database \<Rightarrow> int \<Rightarrow> string option \<Rightarrow> error + portfolio_forecast" where
  "get_portfolio_forecast_results fo d pid jid =
     (case get_portfolio d pid of
        None \<Rightarrow> Inl (PortfolioNotFoundError (''Portfolio with ID '' @ str_of_int pid @ '' not found''))
      | Some p \<Rightarrow>
          (case (case jid of
                   Some i \<Rightarrow>
                     (case find (\<lambda>j. job_id j = i \<and> job_portfolio j = pid) (job_table d) of
                        None \<Rightarrow> Inl (JobNotFoundError ''Forecast job not found'')
                      | Some j \<Rightarrow> Inr j)
                 | None \<Rightarrow>
                     (case latest_completed_job d pid of
                        None \<Rightarrow>
                          Inl (JobNotFoundError
                                 (''No completed forecast jobs found for portfolio '' @ str_of_int pid))
                      | Some j \<Rightarrow> Inr j)) of
             Inl e \<Rightarrow> Inl e
           | Inr job \<Rightarrow>
               let results = job_results d (job_id job)
               in if results = []
                    then Inl (JobNotFoundError (''No forecast results found for job '' @ job_id job))
                  else
                    let (site_forecasts, total_by_datetime) =
                          foldl (collect_result fo) ([], []) results;
                        portfolio_totals = sort_key pt_datetime (dict_values total_by_datetime)
                    in Inr \<lparr>pf_job_id = job_id job,
                            pf_portfolio_id = portfolio_id p,
                            pf_portfolio_name = portfolio_name p,
                            pf_forecast_generated_at = job_completed_at job,
                            pf_site_count = length site_forecasts,
                            pf_total_capacity_mw = float_of_decimal fo (get_total_capacity d pid),
                            pf_site_forecasts = dict_values site_forecasts,
                            pf_portfolio_totals = portfolio_totals\<rparr>))"

section \<open>The notions of the specification\<close>

text \<open>The capacity that \<open>predict\<close> works with: the site's, or 10 MW.\<close>

definition base_capacity_of :: "site \<Rightarrow> decimal" where
  "base_capacity_of s = (case capacity_mw s of None \<Rightarrow> 10 | Some c \<Rightarrow> if c = 0 then 10 else c)"

text \<open>
  The half-sine formula of the solar model at the hour \<open>hour_of_day\<close>, for the draw
  \<open>u\<close> of the random source.
\<close>

definition half_sine_formula :: "float_ops \<Rightarrow> decimal \<Rightarrow> int \<Rightarrow> pyfloat \<Rightarrow> decimal" where
  "half_sine_formula fo base_capacity hour_of_day u =
     max 0 (quantize3 (base_capacity * frepr fo (sin_pi_12 fo (hour_of_day - 6)) * (1 / 4)
        * frepr fo (fadd fo 1 (fmul fo (fsub fo u (1 / 2)) (fround fo (3 / 5))))))"



text \<open>The invariant of a ForecastJob.\<close>

definition job_invariant :: "forecast_job \<Rightarrow> bool" where
  "job_invariant j = (job_completed_at j = None \<longleftrightarrow> job_status j \<in> {Pending, Running})"

text \<open>The sum of floats, added from left to right, starting from the integer 0.\<close>

definition fsum :: "float_ops \<Rightarrow> pyfloat list \<Rightarrow> pyfloat" where
  "fsum fo xs = foldl (fadd fo) 0 xs"

text \<open>
  The entries at the timestamp \<open>t\<close> of the per-site series of an output, site
  after site.
\<close>

definition entries_at :: "datetime \<Rightarrow> site_forecast list \<Rightarrow> forecast_data list" where
  "entries_at t sfs = filter (\<lambda>f. fd_datetime f = t) (concat (map sf_forecasts sfs))"

section \<open>Notions of the proofs\<close>

text \<open>
  \<open>has_row\<close>: the table of jobs has a row of that key. \<open>db_frame\<close> and
  \<open>same_frame\<close>: two states differ at most in the table of results, the heap and
  the number of clock readings. \<open>set_running\<close>, \<open>set_completed\<close> and
  \<open>set_failed\<close> are the three changes of a job that the service saves.
  \<open>effective_horizon\<close> is the horizon that \<open>trigger_portfolio_forecast\<close> works
  with and \<open>new_job\<close> the row that it creates. \<open>registry_all_random\<close>: every
  model of the registry is a \<open>RandomForecastModel\<close>, as in the registry that the
  module creates.
\<close>

definition has_row :: "string \<Rightarrow> database \<Rightarrow> bool" where
  "has_row jid d = (\<exists>row \<in> set (job_table d). job_id row = jid)"

definition db_frame :: "database \<Rightarrow> database \<Rightarrow> bool" where
  "db_frame d d' =
     (job_table d' = job_table d \<and> site_table d' = site_table d
      \<and> portfolio_table d' = portfolio_table d
      \<and> portfolio_site_table d' = portfolio_site_table d
      \<and> enforces_checks d' = enforces_checks d)"

definition same_frame :: "world \<Rightarrow> world \<Rightarrow> bool" where
  "same_frame w w' = (db_frame (db w) (db w') \<and> registry w' = registry w \<and> clock w' = clock w)"

definition set_running :: "forecast_job \<Rightarrow> forecast_job" where
  "set_running row = row\<lparr>job_status := Running\<rparr>"

definition set_completed :: "datetime \<Rightarrow> forecast_job \<Rightarrow> forecast_job" where
  "set_completed t row = row\<lparr>job_status := Completed, job_completed_at := Some t\<rparr>"

definition set_failed :: "datetime \<Rightarrow> string \<Rightarrow> forecast_job \<Rightarrow> forecast_job" where
  "set_failed t msg row =
     row\<lparr>job_status := Failed, job_completed_at := Some t, job_error_message := msg\<rparr>"

text \<open>The state in which the loop over the sites starts.\<close>

definition running_world :: "forecast_job \<Rightarrow> world \<Rightarrow> world" where
  "running_world job w = w\<lparr>db := update_rows (job_id job) set_running (db w)\<rparr>"

text \<open>What \<open>_process_forecast_job\<close> does to the table of jobs.\<close>

definition terminal_update :: "(forecast_job \<Rightarrow> forecast_job) \<Rightarrow> bool" where
  "terminal_update f =
     (\<forall>row. job_id (f row) = job_id row
        \<and> job_forecast_horizon (f row) = job_forecast_horizon row
        \<and> job_portfolio (f row) = job_portfolio row
        \<and> job_status (f row) \<in> {Completed, Failed}
        \<and> job_completed_at (f row) \<noteq> None)"

definition effective_horizon :: "forecast_service \<Rightarrow> int option \<Rightarrow> int" where
  "effective_horizon self forecast_horizon =
     (case forecast_horizon of
        None \<Rightarrow> svc_forecast_horizon self
      | Some h \<Rightarrow> if h = 0 then svc_forecast_horizon self else h)"

definition new_job :: "string \<Rightarrow> datetime \<Rightarrow> int \<Rightarrow> int \<Rightarrow> forecast_job" where
  "new_job uuid now pid horizon =
     \<lparr>job_id = uuid, job_portfolio = pid, job_status = Pending,
      job_forecast_horizon = horizon, job_created_at = now,
      job_completed_at = None, job_error_message = []\<rparr>"

definition all_jobs_invariant :: "world \<Rightarrow> bool" where
  "all_jobs_invariant w = (\<forall>j \<in> set (job_table (db w)). job_invariant j)"

text \<open>The loop over the predictions, on the table of results alone.\<close>

fun create_rows ::
  "string \<Rightarrow> int \<Rightarrow> forecast_point list \<Rightarrow> forecast_result list \<Rightarrow> error + forecast_result list" where
  "create_rows jid sid [] rs = Inr rs"
| "create_rows jid sid (p # ps) rs =
     (if \<exists>x \<in> set rs. fr_job x = jid \<and> fr_site x = sid \<and> fr_forecast_datetime x = fp_datetime p
        then Inl (IntegrityError ''UNIQUE constraint failed: job, site, forecast_datetime'')
      else create_rows jid sid ps
             (rs @ [\<lparr>fr_job = jid, fr_site = sid, fr_forecast_datetime = fp_datetime p,
                     fr_predicted_generation_mwh = fp_predicted_generation_mwh p,
                     fr_confidence_interval_lower = fp_confidence_interval_lower p,
                     fr_confidence_interval_upper = fp_confidence_interval_upper p\<rparr>]))"

text \<open>Two states that the loop over the sites cannot tell apart.\<close>

definition loop_equiv :: "world \<Rightarrow> world \<Rightarrow> bool" where
  "loop_equiv w w' =
     (heap w' = heap w \<and> registry w' = registry w \<and> clock w' = clock w
      \<and> clock_reads w' = clock_reads w \<and> result_table (db w') = result_table (db w))"

definition is_random_model :: "py_object list \<Rightarrow> ref \<Rightarrow> bool" where
  "is_random_model hp a =
     (case heap_get hp a of
        ForecastModelObj (RandomForecastModel r) \<Rightarrow> True
      | ForecastModelObj (CustomModel name f) \<Rightarrow> False
      | NonModelObj \<Rightarrow> False)"

definition registry_all_random :: "world \<Rightarrow> bool" where
  "registry_all_random w =
     list_all (is_random_model (heap w))
       (default_model (registry w) # map snd (models (registry w)))"

text \<open>
  The two halves of \<open>collect_result\<close>, on the dictionary of the sites and on the
  dictionary of the totals, and what holds of each dictionary after the results
  \<open>xs\<close>: \<open>site_invariant\<close> and \<open>total_invariant\<close>.
\<close>

definition new_site_forecast :: "float_ops \<Rightarrow> site \<Rightarrow> site_forecast" where
  "new_site_forecast fo s =
     \<lparr>sf_site_id = site_id s, sf_site_name = site_name s, sf_site_type = site_type s,
      sf_capacity_mw = float_of_decimal fo (or_zero (capacity_mw s)), sf_forecasts = []\<rparr>"

definition add_forecast :: "forecast_data \<Rightarrow> site_forecast \<Rightarrow> site_forecast" where
  "add_forecast v e = e\<lparr>sf_forecasts := sf_forecasts e @ [v]\<rparr>"

definition zero_total :: "datetime \<Rightarrow> portfolio_total" where
  "zero_total t = \<lparr>pt_datetime = t, total_predicted_mwh = 0,
     total_confidence_lower = 0, total_confidence_upper = 0\<rparr>"

definition add_total :: "float_ops \<Rightarrow> forecast_data \<Rightarrow> portfolio_total \<Rightarrow> portfolio_total" where
  "add_total fo v t =
     t\<lparr>total_predicted_mwh := fadd fo (total_predicted_mwh t) (fd_predicted_generation_mwh v),
       total_confidence_lower := fadd fo (total_confidence_lower t) (fd_confidence_interval_lower v),
       total_confidence_upper := fadd fo (total_confidence_upper t) (fd_confidence_interval_upper v)\<rparr>"

definition collect_site ::
  "float_ops \<Rightarrow> (string \<times> site_forecast) list \<Rightarrow> forecast_result \<times> site
     \<Rightarrow> (string \<times> site_forecast) list" where
  "collect_site fo sf x =
     dict_modify (site_name (snd x)) (add_forecast (forecast_data_of fo (fst x)))
       (if site_name (snd x) \<notin> set (dict_keys sf)
          then dict_set (site_name (snd x)) (new_site_forecast fo (snd x)) sf
        else sf)"

definition collect_total ::
  "float_ops \<Rightarrow> (datetime \<times> portfolio_total) list \<Rightarrow> forecast_result \<times> site
     \<Rightarrow> (datetime \<times> portfolio_total) list" where
  "collect_total fo tot x =
     dict_modify (fr_forecast_datetime (fst x)) (add_total fo (forecast_data_of fo (fst x)))
       (if fr_forecast_datetime (fst x) \<notin> set (dict_keys tot)
          then dict_set (fr_forecast_datetime (fst x)) (zero_total (fr_forecast_datetime (fst x))) tot
        else tot)"

definition site_invariant ::
  "float_ops \<Rightarrow> (forecast_result \<times> site) list \<Rightarrow> (string \<times> site_forecast) list \<Rightarrow> bool" where
  "site_invariant fo xs sf =
     (sorted_wrt (<) (dict_keys sf)
      \<and> set (dict_keys sf) = (site_name \<circ> snd) ` set xs
      \<and> (\<forall>p \<in> set sf. sf_site_name (snd p) = fst p
            \<and> sf_forecasts (snd p)
                = map (forecast_data_of fo \<circ> fst) (filter (\<lambda>x. site_name (snd x) = fst p) xs))
      \<and> concat (map (sf_forecasts \<circ> snd) sf) = map (forecast_data_of fo \<circ> fst) xs)"

definition total_invariant ::
  "float_ops \<Rightarrow> (forecast_result \<times> site) list \<Rightarrow> (datetime \<times> portfolio_total) list \<Rightarrow> bool" where
  "total_invariant fo xs tot =
     (distinct (dict_keys tot)
      \<and> set (dict_keys tot) = (fr_forecast_datetime \<circ> fst) ` set xs
      \<and> (\<forall>p \<in> set tot. pt_datetime (snd p) = fst p
            \<and> total_predicted_mwh (snd p)
                = fsum fo (map fd_predicted_generation_mwh
                    (filter (\<lambda>f. fd_datetime f = fst p) (map (forecast_data_of fo \<circ> fst) xs)))
            \<and> total_confidence_lower (snd p)
                = fsum fo (map fd_confidence_interval_lower
                    (filter (\<lambda>f. fd_datetime f = fst p) (map (forecast_data_of fo \<circ> fst) xs)))
            \<and> total_confidence_upper (snd p)
                = fsum fo (map fd_confidence_interval_upper
                    (filter (\<lambda>f. fd_datetime f = fst p) (map (forecast_data_of fo \<circ> fst) xs)))))"

section \<open>Sample data\<close>

definition demo_gen :: "int \<Rightarrow> nat \<Rightarrow> pyfloat" where
  "demo_gen s n = of_int ((s + int n) mod 10) / 10"

definition demo_rng :: rng where
  "demo_rng = RandomForecastModel_init demo_gen 0 (Some 42)"

definition broken_model :: forecast_model where
  "broken_model = CustomModel ''Broken'' (\<lambda>s h now. Inl (PythonException ''Model error''))"

definition demo_heap :: "py_object list" where
  "demo_heap = snd (ModelRegistry_init demo_gen 1 2 3 [ForecastModelObj broken_model])"

definition demo_registry :: model_registry where
  "demo_registry = fst (ModelRegistry_init demo_gen 1 2 3 [ForecastModelObj broken_model])"

definition demo_solar :: site where
  "demo_solar = \<lparr>site_id = 1, site_name = ''A'', site_type = ''solar'', capacity_mw = Some 50\<rparr>"

definition demo_wind :: site where
  "demo_wind = \<lparr>site_id = 2, site_name = ''B'', site_type = ''wind'', capacity_mw = Some 100\<rparr>"

definition demo_point :: forecast_point where
  "demo_point = \<lparr>fp_datetime = 25200000000, fp_predicted_generation_mwh = 2653 / 1000,
     fp_confidence_interval_lower = Some (2653 / 1250),
     fp_confidence_interval_upper = Some (7959 / 2500)\<rparr>"

definition zero_point :: "datetime \<Rightarrow> forecast_point" where
  "zero_point t = \<lparr>fp_datetime = t, fp_predicted_generation_mwh = 0,
     fp_confidence_interval_lower = Some 0, fp_confidence_interval_upper = Some 0\<rparr>"


definition demo_db :: database where
  "demo_db = \<lparr>site_table = [demo_solar, demo_wind],
     portfolio_table = [\<lparr>portfolio_id = 1, portfolio_name = ''P''\<rparr>,
                        \<lparr>portfolio_id = 2, portfolio_name = ''Empty''\<rparr>],
     portfolio_site_table = [(1, 1), (1, 2)],
     job_table = [], result_table = [], enforces_checks = True\<rparr>"

definition demo_clock :: "nat \<Rightarrow> datetime" where
  "demo_clock n = 21600000000 + int n"

definition demo_world :: world where
  "demo_world = \<lparr>db = demo_db, heap = demo_heap, registry = demo_registry,
     clock = demo_clock, clock_reads = 0\<rparr>"

definition demo_world_unchecked :: world where
  "demo_world_unchecked = demo_world\<lparr>db := demo_db\<lparr>enforces_checks := False\<rparr>\<rparr>"

definition demo_job :: forecast_job where
  "demo_job = \<lparr>job_id = ''job-1'', job_portfolio = 1, job_status = Pending,
     job_forecast_horizon = 24, job_created_at = 21600000000,
     job_completed_at = None, job_error_message = []\<rparr>"

definition demo_job_completed :: forecast_job where
  "demo_job_completed = demo_job\<lparr>job_status := Completed, job_completed_at := Some 21600000003\<rparr>"

definition broken_world :: world where
  "broken_world = demo_world\<lparr>
     db := demo_db\<lparr>job_table := [demo_job]\<rparr>,
     registry := demo_registry\<lparr>models := [(''solar'', 2), (''wind'', 0)]\<rparr>\<rparr>"

definition results_db :: database where
  "results_db = demo_db\<lparr>
     job_table := [demo_job_completed],
     result_table :=
       [\<lparr>fr_job = ''job-1'', fr_site = 2, fr_forecast_datetime = 21600000000,
          fr_predicted_generation_mwh = 5, fr_confidence_interval_lower = Some 4,
          fr_confidence_interval_upper = Some 6\<rparr>,
        \<lparr>fr_job = ''job-1'', fr_site = 1, fr_forecast_datetime = 21600000000,
          fr_predicted_generation_mwh = 10, fr_confidence_interval_lower = Some 8,
          fr_confidence_interval_upper = Some 12\<rparr>]\<rparr>"

definition demo_total :: portfolio_total where
  "demo_total = \<lparr>pt_datetime = 21600000000, total_predicted_mwh = 15,
     total_confidence_lower = 12, total_confidence_upper = 18\<rparr>"

definition demo_out :: portfolio_forecast where
  "demo_out =
     \<lparr>pf_job_id = ''job-1'', pf_portfolio_id = 1, pf_portfolio_name = ''P'',
      pf_forecast_generated_at = Some 21600000003, pf_site_count = 2,
      pf_total_capacity_mw = 150,
      pf_site_forecasts =
        [\<lparr>sf_site_id = 1, sf_site_name = ''A'', sf_site_type = ''solar'', sf_capacity_mw = 50,
           sf_forecasts =
             [\<lparr>fd_datetime = 21600000000, fd_predicted_generation_mwh = 10,
                fd_confidence_interval_lower = 8, fd_confidence_interval_upper = 12\<rparr>]\<rparr>,
         \<lparr>sf_site_id = 2, sf_site_name = ''B'', sf_site_type = ''wind'', sf_capacity_mw = 100,
           sf_forecasts =
             [\<lparr>fd_datetime = 21600000000, fd_predicted_generation_mwh = 5,
                fd_confidence_interval_lower = 4, fd_confidence_interval_upper = 6\<rparr>]\<rparr>],
      pf_portfolio_totals = [demo_total]\<rparr>"

definition seeded_heap :: "py_object list" where
  "seeded_heap =
     [ForecastModelObj (RandomForecastModel (RandomForecastModel_init demo_gen 1 (Some 42))),
      ForecastModelObj (RandomForecastModel (RandomForecastModel_init demo_gen 2 (Some 42)))]"

section \<open>Properties of RandomForecastModel.predict\<close>

lemma predict_loop_acc:
  "fst (predict_loop fo s c st hs acc r) = acc @ fst (predict_loop fo s c st hs [] r)"
proof (induction hs arbitrary: acc r)
  case Nil
  then show ?case by simp
next
  case (Cons h hs)
  show ?case
    using Cons.IH[of "acc @ [fst (predict_point fo s c st h r)]" "snd (predict_point fo s c st h r)"]
      Cons.IH[of "[fst (predict_point fo s c st h r)]" "snd (predict_point fo s c st h r)"]
    by (simp add: case_prod_beta)
qed

lemma predict_loop_fst_Cons:
  "fst (predict_loop fo s c st (h # hs) [] r) =
     fst (predict_point fo s c st h r)
       # fst (predict_loop fo s c st hs [] (snd (predict_point fo s c st h r)))"
  using predict_loop_acc[of fo s c st hs "[fst (predict_point fo s c st h r)]"
      "snd (predict_point fo s c st h r)"]
  by (simp add: case_prod_beta)




text \<open>What holds of every point that one pass of the loop makes holds of the list.\<close>

lemma predict_loop_all:
  assumes "\<And>hour r. Q (fst (predict_point fo s c st hour r))"
  shows "p \<in> set (fst (predict_loop fo s c st hs [] r)) \<Longrightarrow> Q p"
proof (induction hs arbitrary: r)
  case Nil
  then show ?case by simp
next
  case (Cons h hs)
  from Cons.prems have "p = fst (predict_point fo s c st h r) \<or>
      p \<in> set (fst (predict_loop fo s c st hs [] (snd (predict_point fo s c st h r))))"
    by (simp only: predict_loop_fst_Cons set_simps insert_iff)
  then show ?case using assms Cons.IH by blast
qed


lemma predict_Inr_D:
  assumes "fst (predict fo r sa h now) = Inr ps"
  shows "\<exists>s. sa = Some s \<and> 0 < h \<and>
    ps = fst (predict_loop fo s (base_capacity_of s) (replace_top_of_hour now) [0..<nat h] [] r)"
  using assms
  by (auto simp: predict_def base_capacity_of_def Let_def
      split: option.splits if_splits prod.splits)


lemma demo_predict_7:
  "fst (predict exact_floats demo_rng (Some demo_solar) 1 25200000000) = Inr [demo_point]"
  by code_simp

lemma demo_predict_6:
  "fst (predict exact_floats demo_rng (Some demo_solar) 1 21600000000)
     = Inr [zero_point 21600000000]"
  by code_simp

lemma demo_predict_18:
  "fst (predict exact_floats demo_rng (Some demo_solar) 1 64800000000)
     = Inr [zero_point 64800000000]"
  by code_simp

lemma demo_predict_5:
  "fst (predict exact_floats demo_rng (Some demo_solar) 1 18000000000)
     = Inr [zero_point 18000000000]"
  by code_simp



lemma predict_point_bounds:
  "let p = fst (predict_point fo s c st hour r); v = fp_predicted_generation_mwh p
   in 0 \<le> v
      \<and> fp_confidence_interval_lower p = Some (v * (8 / 10))
      \<and> fp_confidence_interval_upper p = Some (v * (12 / 10))"
  by (simp add: predict_point_def generate_solar_prediction_def generate_wind_prediction_def
        generate_generic_prediction_def Let_def split: prod.splits)

text \<open>
  Claim C7. Every point that \<open>predict\<close> returns, for any site, source of randomness,
  horizon and float arithmetic, has a predicted value \<open>\<ge> 0\<close> and both confidence
  bounds, with \<open>0 \<le> lower \<le> predicted \<le> upper\<close> and \<open>upper = predicted \<times> 1.2\<close>.
\<close>

theorem predict_point_invariants:
  assumes "fst (predict fo r sa h now) = Inr ps" and "p \<in> set ps"
  shows "0 \<le> fp_predicted_generation_mwh p
     \<and> (\<exists>lo hi. fp_confidence_interval_lower p = Some lo
           \<and> fp_confidence_interval_upper p = Some hi
           \<and> 0 \<le> lo \<and> lo \<le> fp_predicted_generation_mwh p
           \<and> fp_predicted_generation_mwh p \<le> hi
           \<and> hi = fp_predicted_generation_mwh p * (12 / 10))"
proof -
  from assms(1) obtain s where ps:
    "ps = fst (predict_loop fo s (base_capacity_of s) (replace_top_of_hour now) [0..<nat h] [] r)"
    using predict_Inr_D by blast
  let ?Q = "\<lambda>p. 0 \<le> fp_predicted_generation_mwh p
      \<and> fp_confidence_interval_lower p = Some (fp_predicted_generation_mwh p * (8 / 10))
      \<and> fp_confidence_interval_upper p = Some (fp_predicted_generation_mwh p * (12 / 10))"
  have "?Q p"
  proof (rule predict_loop_all[where Q = ?Q])
    show "p \<in> set (fst (predict_loop fo s (base_capacity_of s) (replace_top_of_hour now)
        [0..<nat h] [] r))"
      using assms(2) ps by simp
  next
    fix hour r'
    show "?Q (fst (predict_point fo s (base_capacity_of s) (replace_top_of_hour now) hour r'))"
      using predict_point_bounds[of fo s _ "replace_top_of_hour now" hour r']
      by (simp add: Let_def)
  qed
  then have q: "0 \<le> fp_predicted_generation_mwh p"
      "fp_confidence_interval_lower p = Some (fp_predicted_generation_mwh p * (8 / 10))"
      "fp_confidence_interval_upper p = Some (fp_predicted_generation_mwh p * (12 / 10))"
    by simp_all
  have "0 \<le> fp_predicted_generation_mwh p * (8 / 10)"
      "fp_predicted_generation_mwh p * (8 / 10) \<le> fp_predicted_generation_mwh p"
      "fp_predicted_generation_mwh p \<le> fp_predicted_generation_mwh p * (12 / 10)"
    using q(1) by simp_all
  then show ?thesis using q by blast
qed

theorem predict_point_invariants_witness:
  "fst (predict exact_floats demo_rng (Some demo_solar) 1 25200000000) = Inr [demo_point]
   \<and> demo_point \<in> set [demo_point]
   \<and> 0 \<le> fp_predicted_generation_mwh demo_point
   \<and> (\<exists>lo hi. fp_confidence_interval_lower demo_point = Some lo
           \<and> fp_confidence_interval_upper demo_point = Some hi
           \<and> 0 \<le> lo \<and> lo \<le> fp_predicted_generation_mwh demo_point
           \<and> fp_predicted_generation_mwh demo_point \<le> hi
           \<and> hi = fp_predicted_generation_mwh demo_point * (12 / 10))"
proof -
  have m: "demo_point \<in> set [demo_point]" by simp
  show ?thesis
    using predict_point_invariants[OF demo_predict_7 m] demo_predict_7 m by blast
qed

lemma predict_point_solar:
  assumes "site_type s = ''solar''"
  shows "let p = fst (predict_point fo s c st hour r); hd = dt_hour (fp_datetime p)
   in (hd < 6 \<or> 18 < hd \<longrightarrow> fp_predicted_generation_mwh p = 0)
    \<and> (6 \<le> hd \<and> hd \<le> 18 \<longrightarrow> (\<exists>u. fp_predicted_generation_mwh p = half_sine_formula fo c hd u))"
  using assms
  by (auto simp add: predict_point_def generate_solar_prediction_def half_sine_formula_def
        Let_def split: prod.splits)

lemma half_sine_formula_6:
  "frepr fo (sin_pi_12 fo 0) = 0 \<Longrightarrow> half_sine_formula fo c 6 u = 0"
  by (simp add: half_sine_formula_def quantize3_def round_half_even_def)

text \<open>
  Claim C2, as stated, fails at the boundary hours. At the hour 6 the half-sine
  formula is applied, and it gives 0, since \<open>math.sin(math.pi * 0 / 12)\<close> is
  \<open>0.0\<close>; at the hour 18 the sine is the float \<open>1.2246467991473532e-16\<close>, and the
  value is 0 after the rounding to three places. A solar site of 50 MW, forecast for
  one hour from 06:00 and from 18:00.
\<close>

theorem solar_boundary_counterexample:
  "site_type demo_solar = ''solar''
   \<and> fst (predict exact_floats demo_rng (Some demo_solar) 1 21600000000)
       = Inr [zero_point 21600000000]
   \<and> dt_hour (fp_datetime (zero_point 21600000000)) = 6
   \<and> fp_predicted_generation_mwh (zero_point 21600000000) = 0
   \<and> fst (predict exact_floats demo_rng (Some demo_solar) 1 64800000000)
       = Inr [zero_point 64800000000]
   \<and> dt_hour (fp_datetime (zero_point 64800000000)) = 18
   \<and> fp_predicted_generation_mwh (zero_point 64800000000) = 0"
  using demo_predict_6 demo_predict_18
  by (simp add: demo_solar_def zero_point_def dt_hour_def us_per_hour_def)

text \<open>
  Claim C2, amended. For a solar site and any source of randomness, every point
  whose hour of day is less than 6 or greater than 18 has the predicted value 0;
  every point whose hour is from 6 to 18, both included, has the value of the
  half-sine formula for a draw of the random source; and at the hour 6, where the
  sine is that of 0, this value is 0 as well.
\<close>

theorem solar_window:
  assumes "fst (predict fo r (Some s) h now) = Inr ps" and "site_type s = ''solar''"
    and "p \<in> set ps"
  shows "(dt_hour (fp_datetime p) < 6 \<or> 18 < dt_hour (fp_datetime p)
            \<longrightarrow> fp_predicted_generation_mwh p = 0)
     \<and> (6 \<le> dt_hour (fp_datetime p) \<and> dt_hour (fp_datetime p) \<le> 18
            \<longrightarrow> (\<exists>u. fp_predicted_generation_mwh p =
                   half_sine_formula fo (base_capacity_of s) (dt_hour (fp_datetime p)) u))
     \<and> (dt_hour (fp_datetime p) = 6 \<and> frepr fo (sin_pi_12 fo 0) = 0
            \<longrightarrow> fp_predicted_generation_mwh p = 0)"
proof -
  from assms(1) have ps:
    "ps = fst (predict_loop fo s (base_capacity_of s) (replace_top_of_hour now) [0..<nat h] [] r)"
    using predict_Inr_D[of fo r "Some s" h now ps] by simp
  let ?Q = "\<lambda>p. (dt_hour (fp_datetime p) < 6 \<or> 18 < dt_hour (fp_datetime p)
            \<longrightarrow> fp_predicted_generation_mwh p = 0)
     \<and> (6 \<le> dt_hour (fp_datetime p) \<and> dt_hour (fp_datetime p) \<le> 18
            \<longrightarrow> (\<exists>u. fp_predicted_generation_mwh p =
                   half_sine_formula fo (base_capacity_of s) (dt_hour (fp_datetime p)) u))"
  have "?Q p"
  proof (rule predict_loop_all[where Q = ?Q])
    show "p \<in> set (fst (predict_loop fo s (base_capacity_of s) (replace_top_of_hour now)
        [0..<nat h] [] r))"
      using assms(3) ps by simp
  next
    fix hour r'
    show "?Q (fst (predict_point fo s (base_capacity_of s) (replace_top_of_hour now) hour r'))"
      using predict_point_solar[OF assms(2), of fo "base_capacity_of s"
          "replace_top_of_hour now" hour r']
      by (simp add: Let_def)
  qed
  then show ?thesis using half_sine_formula_6[of fo "base_capacity_of s"] by auto
qed

theorem solar_window_witness:
  "fst (predict exact_floats demo_rng (Some demo_solar) 1 18000000000)
     = Inr [zero_point 18000000000]
   \<and> site_type demo_solar = ''solar''
   \<and> zero_point 18000000000 \<in> set [zero_point 18000000000]
   \<and> dt_hour (fp_datetime (zero_point 18000000000)) < 6
   \<and> fp_predicted_generation_mwh (zero_point 18000000000) = 0
   \<and> fst (predict exact_floats demo_rng (Some demo_solar) 1 21600000000)
       = Inr [zero_point 21600000000]
   \<and> zero_point 21600000000 \<in> set [zero_point 21600000000]
   \<and> dt_hour (fp_datetime (zero_point 21600000000)) = 6
   \<and> frepr exact_floats (sin_pi_12 exact_floats 0) = 0
   \<and> (\<exists>u. fp_predicted_generation_mwh (zero_point 21600000000)
          = half_sine_formula exact_floats (base_capacity_of demo_solar) 6 u)
   \<and> fp_predicted_generation_mwh (zero_point 21600000000) = 0"
proof -
  have s: "site_type demo_solar = ''solar''" by (simp add: demo_solar_def)
  have m: "zero_point 18000000000 \<in> set [zero_point 18000000000]" by simp
  have h: "dt_hour (fp_datetime (zero_point 18000000000)) < 6"
    by (simp add: zero_point_def dt_hour_def us_per_hour_def)
  have m6: "zero_point 21600000000 \<in> set [zero_point 21600000000]" by simp
  have h6: "dt_hour (fp_datetime (zero_point 21600000000)) = 6"
    by (simp add: zero_point_def dt_hour_def us_per_hour_def)
  have z: "frepr exact_floats (sin_pi_12 exact_floats 0) = 0"
    by (simp add: exact_floats_def exact_sin_pi_12_def)
  note A = solar_window[OF demo_predict_5 s m]
  note B = solar_window[OF demo_predict_6 s m6]
  have a: "fp_predicted_generation_mwh (zero_point 18000000000) = 0"
    using A h by blast
  have b: "\<exists>u. fp_predicted_generation_mwh (zero_point 21600000000)
          = half_sine_formula exact_floats (base_capacity_of demo_solar) 6 u"
    using B h6 by simp
  have c: "fp_predicted_generation_mwh (zero_point 21600000000) = 0"
    using B h6 z by blast
  show ?thesis
    using demo_predict_5 demo_predict_6 s m h m6 h6 z a b c by blast
qed

lemma heap_get_update_other:
  "a \<noteq> b \<Longrightarrow> heap_get (hp[a := x]) b = heap_get hp b"
  by (simp add: heap_get_def)

lemma model_predict_random:
  assumes "heap_get hp a = ForecastModelObj (RandomForecastModel r)"
  shows "model_predict fo hp a sa h now
     = (fst (predict fo r sa h now),
        hp[a := ForecastModelObj (RandomForecastModel (snd (predict fo r sa h now)))])"
  using assms by (simp add: model_predict_def case_prod_beta)

text \<open>
  Claim C6. Two \<open>RandomForecastModel\<close> objects made with the same seed, whatever the
  operating system would have seeded each with, return the same result for the same
  site, horizon and time of the call, and are left in the same state. They are two
  objects: when both live in the heap, the call of \<open>predict\<close> on the first does not
  change what the second then returns, which is what the first returned.
\<close>

theorem predict_deterministic:
  "predict fo (RandomForecastModel_init gen entropy1 (Some seed)) site_arg h now
     = predict fo (RandomForecastModel_init gen entropy2 (Some seed)) site_arg h now
   \<and> (a \<noteq> b
       \<and> heap_get hp a = ForecastModelObj (RandomForecastModel
             (RandomForecastModel_init gen entropy1 (Some seed)))
       \<and> heap_get hp b = ForecastModelObj (RandomForecastModel
             (RandomForecastModel_init gen entropy2 (Some seed)))
      \<longrightarrow> fst (model_predict fo (snd (model_predict fo hp a site_arg h now)) b site_arg h now)
            = fst (model_predict fo hp a site_arg h now))"
proof (intro conjI impI)
  show e: "predict fo (RandomForecastModel_init gen entropy1 (Some seed)) site_arg h now
     = predict fo (RandomForecastModel_init gen entropy2 (Some seed)) site_arg h now"
    by (simp add: RandomForecastModel_init_def Random_def)
  assume A: "a \<noteq> b
       \<and> heap_get hp a = ForecastModelObj (RandomForecastModel
             (RandomForecastModel_init gen entropy1 (Some seed)))
       \<and> heap_get hp b = ForecastModelObj (RandomForecastModel
             (RandomForecastModel_init gen entropy2 (Some seed)))"
  let ?r1 = "RandomForecastModel_init gen entropy1 (Some seed)"
  let ?r2 = "RandomForecastModel_init gen entropy2 (Some seed)"
  let ?hp = "hp[a := ForecastModelObj (RandomForecastModel (snd (predict fo ?r1 site_arg h now)))]"
  have 1: "model_predict fo hp a site_arg h now = (fst (predict fo ?r1 site_arg h now), ?hp)"
    using A by (simp add: model_predict_random)
  have "heap_get ?hp b = ForecastModelObj (RandomForecastModel ?r2)"
    using A by (simp add: heap_get_update_other)
  then have 2: "fst (model_predict fo ?hp b site_arg h now) = fst (predict fo ?r2 site_arg h now)"
    by (simp add: model_predict_random)
  show "fst (model_predict fo (snd (model_predict fo hp a site_arg h now)) b site_arg h now)
            = fst (model_predict fo hp a site_arg h now)"
    unfolding 1 using 2 e by simp
qed

lemma seeded_0:
  "heap_get seeded_heap 0
     = ForecastModelObj (RandomForecastModel (RandomForecastModel_init demo_gen 1 (Some 42)))"
  by (simp add: seeded_heap_def heap_get_def)

lemma seeded_1:
  "heap_get seeded_heap 1
     = ForecastModelObj (RandomForecastModel (RandomForecastModel_init demo_gen 2 (Some 42)))"
  by (simp add: seeded_heap_def heap_get_def)

theorem predict_deterministic_witness:
  "(0::nat) \<noteq> 1
   \<and> heap_get seeded_heap 0
       = ForecastModelObj (RandomForecastModel (RandomForecastModel_init demo_gen 1 (Some 42)))
   \<and> heap_get seeded_heap 1
       = ForecastModelObj (RandomForecastModel (RandomForecastModel_init demo_gen 2 (Some 42)))
   \<and> fst (model_predict exact_floats
          (snd (model_predict exact_floats seeded_heap 0 (Some demo_solar) 2 25200000000)) 1
          (Some demo_solar) 2 25200000000)
       = fst (model_predict exact_floats seeded_heap 0 (Some demo_solar) 2 25200000000)"
  using predict_deterministic[of exact_floats demo_gen 1 42 "Some demo_solar" 2 25200000000 2
      0 1 seeded_heap] seeded_0 seeded_1
  by simp


section \<open>Properties of the ModelRegistry\<close>














section \<open>Properties of the ForecastService\<close>

lemma copy_fields_keep:
  "job_id (fold (copy_field j) fs row) = job_id row
   \<and> job_portfolio (fold (copy_field j) fs row) = job_portfolio row
   \<and> job_forecast_horizon (fold (copy_field j) fs row) = job_forecast_horizon row
   \<and> job_created_at (fold (copy_field j) fs row) = job_created_at row"
proof (induction fs arbitrary: row)
  case Nil
  then show ?case by simp
next
  case (Cons f fs)
  then show ?case by (cases f) simp_all
qed

lemma update_rows_frame [simp]:
  "result_table (update_rows jid f d) = result_table d"
  "site_table (update_rows jid f d) = site_table d"
  "portfolio_table (update_rows jid f d) = portfolio_table d"
  "portfolio_site_table (update_rows jid f d) = portfolio_site_table d"
  "enforces_checks (update_rows jid f d) = enforces_checks d"
  by (simp_all add: update_rows_def)

lemma update_rows_sites [simp]: "portfolio_sites (update_rows jid f d) pid = portfolio_sites d pid"
  by (simp add: portfolio_sites_def)

lemma update_rows_update_rows:
  assumes "\<And>row. job_id (f row) = job_id row"
  shows "update_rows jid g (update_rows jid f d) = update_rows jid (g \<circ> f) d"
  using assms by (simp add: update_rows_def comp_def cong: map_cong)

lemma has_row_update_rows:
  assumes "\<And>row. job_id (f row) = job_id row"
  shows "has_row jid' (update_rows jid f d) = has_row jid' d"
  using assms by (auto simp: has_row_def update_rows_def)

lemma job_save_eq:
  "job_save j fs d =
     (if has_row (job_id j) d then Inr (update_rows (job_id j) (fold (copy_field j) fs) d)
      else Inl (DatabaseError ''Save with update_fields did not affect any rows.''))"
  by (simp add: job_save_def has_row_def)

lemma db_frame_refl [simp]: "db_frame d d"
  by (simp add: db_frame_def)

lemma db_frame_trans: "db_frame a b \<Longrightarrow> db_frame b c \<Longrightarrow> db_frame a c"
  by (simp add: db_frame_def)

lemma ForecastResult_create_frame:
  "ForecastResult_create r d = Inr d' \<Longrightarrow> db_frame d d'"
  by (auto simp: ForecastResult_create_def db_frame_def split: if_splits)

lemma create_results_frame:
  "create_results job s ps d = Inr d' \<Longrightarrow> db_frame d d'"
proof (induction ps arbitrary: d)
  case Nil
  then show ?case by simp
next
  case (Cons p ps)
  then show ?case
    by (auto split: sum.splits dest!: ForecastResult_create_frame intro: db_frame_trans)
qed

lemma same_frame_refl [simp]: "same_frame w w"
  by (simp add: same_frame_def)

lemma same_frame_trans: "same_frame a b \<Longrightarrow> same_frame b c \<Longrightarrow> same_frame a c"
  by (auto simp: same_frame_def intro: db_frame_trans)

lemma forecast_sites_Cons:
  "forecast_sites fo job h (s # ss) w =
     (let w1 = snd (timezone_now w);
          pr = model_predict fo (heap w1) (get_model (registry w) (site_type s)) (Some s) h
                 (fst (timezone_now w));
          w2 = w1\<lparr>heap := snd pr\<rparr>
      in case fst pr of
           Inl e \<Rightarrow> (Some e, w2)
         | Inr ps \<Rightarrow>
             (case create_results job s ps (db w2) of
                Inl e \<Rightarrow> (Some e, w2)
              | Inr d \<Rightarrow> forecast_sites fo job h ss (w2\<lparr>db := d\<rparr>)))"
  by (simp add: Let_def case_prod_beta)

lemma forecast_sites_frame:
  "same_frame w (snd (forecast_sites fo job h ss w))"
proof (induction ss arbitrary: w)
  case Nil
  then show ?case by simp
next
  case (Cons s ss)
  let ?w1 = "snd (timezone_now w)"
  let ?pr = "model_predict fo (heap ?w1) (get_model (registry w) (site_type s)) (Some s) h
                 (fst (timezone_now w))"
  let ?w2 = "?w1\<lparr>heap := snd ?pr\<rparr>"
  have f2: "same_frame w ?w2" by (simp add: same_frame_def timezone_now_def)
  show ?case
  proof (cases "fst ?pr")
    case (Inl e)
    then show ?thesis using f2 by (simp add: forecast_sites_Cons Let_def del: forecast_sites.simps)
  next
    case (Inr ps)
    show ?thesis
    proof (cases "create_results job s ps (db ?w2)")
      case (Inl e)
      then show ?thesis using f2 Inr
        by (simp add: forecast_sites_Cons Let_def del: forecast_sites.simps)
    next
      case r: (Inr d)
      have "same_frame ?w2 (?w2\<lparr>db := d\<rparr>)"
        using create_results_frame[OF r] by (simp add: same_frame_def)
      then have "same_frame w (snd (forecast_sites fo job h ss (?w2\<lparr>db := d\<rparr>)))"
        using f2 Cons.IH[of "?w2\<lparr>db := d\<rparr>"] same_frame_trans by blast
      then show ?thesis using Inr r
        by (simp add: forecast_sites_Cons Let_def del: forecast_sites.simps)
    qed
  qed
qed


lemma has_row_running [simp]:
  "has_row jid (update_rows jid' set_running d) = has_row jid d"
  by (rule has_row_update_rows) (simp add: set_running_def)

lemma process_failed_eq:
  "process_failed e job w =
     (if has_row (job_id job) (db w)
        then (Inl (ForecastServiceError (''Forecast processing failed: '' @ str_of_error e)),
              set_failed (clock w (clock_reads w)) (str_of_error e) job,
              (snd (timezone_now w))\<lparr>db := update_rows (job_id job)
                  (set_failed (clock w (clock_reads w)) (str_of_error e)) (db w)\<rparr>)
      else (Inl (DatabaseError ''Save with update_fields did not affect any rows.''),
            set_failed (clock w (clock_reads w)) (str_of_error e) job,
            snd (timezone_now w)))"
  by (simp add: process_failed_def job_save_eq timezone_now_def set_failed_def Let_def
      update_rows_def)

lemma process_no_row:
  assumes "\<not> has_row (job_id job) (db w)"
  shows "process_forecast_job fo job h w =
     (Inl (DatabaseError ''Save with update_fields did not affect any rows.''),
      set_failed (clock w (clock_reads w))
        ''Save with update_fields did not affect any rows.'' (set_running job),
      snd (timezone_now w))"
  using assms
  by (simp add: process_forecast_job_def job_save_eq process_failed_eq set_running_def Let_def)

lemma copy_running [simp]: "copy_field (set_running job) F_status = set_running"
  by (rule ext) (simp add: set_running_def)

lemma set_running_fields [simp]:
  "job_portfolio (set_running job) = job_portfolio job"
  by (simp add: set_running_def)

lemma set_running_alt: "job\<lparr>job_status := Running\<rparr> = set_running job"
  by (simp add: set_running_def)

lemma fold_copy_completed:
  "copy_field (set_completed t job) F_completed_at \<circ> copy_field (set_completed t job) F_status
     = set_completed t"
  by (rule ext) (simp add: set_completed_def)

lemma job_id_set [simp]:
  "job_id (set_running row) = job_id row"
  "job_id (set_completed t row) = job_id row"
  "job_id (set_failed t m row) = job_id row"
  by (simp_all add: set_running_def set_completed_def set_failed_def)

lemma has_row_set [simp]:
  "has_row jid (update_rows jid' (set_completed t) d) = has_row jid d"
  "has_row jid (update_rows jid' (set_failed t m) d) = has_row jid d"
  by (rule has_row_update_rows, simp)+

lemma process_empty:
  assumes "has_row (job_id job) (db w)" and "portfolio_sites (db w) (job_portfolio job) = []"
  shows "process_forecast_job fo job h w =
     (Inl (ForecastServiceError (''Forecast processing failed: '' @ ''Portfolio has no sites'')),
      set_failed (clock w (clock_reads w)) ''Portfolio has no sites'' (set_running job),
      (snd (timezone_now w))\<lparr>db := update_rows (job_id job)
          (set_failed (clock w (clock_reads w)) ''Portfolio has no sites'')
          (update_rows (job_id job) set_running (db w))\<rparr>)"
  using assms
  by (simp add: process_forecast_job_def job_save_eq process_failed_eq Let_def
      timezone_now_def set_running_alt)

lemma process_raised:
  assumes "has_row (job_id job) (db w)" and "portfolio_sites (db w) (job_portfolio job) \<noteq> []"
    and "forecast_sites fo (set_running job) h (portfolio_sites (db w) (job_portfolio job))
           (running_world job w) = (Some e, w2)"
  shows "process_forecast_job fo job h w =
     (Inl (ForecastServiceError (''Forecast processing failed: '' @ str_of_error e)),
      set_failed (clock w2 (clock_reads w2)) (str_of_error e) (set_running job),
      (snd (timezone_now w2))\<lparr>db := update_rows (job_id job)
          (set_failed (clock w2 (clock_reads w2)) (str_of_error e))
          (update_rows (job_id job) set_running (db w))\<rparr>)"
  using assms
  by (simp add: process_forecast_job_def job_save_eq process_failed_eq Let_def
      timezone_now_def set_running_alt running_world_def)

lemma process_done:
  assumes "has_row (job_id job) (db w)" and "portfolio_sites (db w) (job_portfolio job) \<noteq> []"
    and "forecast_sites fo (set_running job) h (portfolio_sites (db w) (job_portfolio job))
           (running_world job w) = (None, w2)"
  shows "process_forecast_job fo job h w =
     (Inr (),
      set_completed (clock w2 (clock_reads w2)) (set_running job),
      (snd (timezone_now w2))\<lparr>db := update_rows (job_id job)
          (set_completed (clock w2 (clock_reads w2))) (db w2)\<rparr>)"
proof -
  have "same_frame (running_world job w) w2"
    using forecast_sites_frame[of "running_world job w" fo "set_running job" h
        "portfolio_sites (db w) (job_portfolio job)"] assms(3) by simp
  then have "job_table (db w2) = job_table (update_rows (job_id job) set_running (db w))"
    by (simp add: same_frame_def db_frame_def running_world_def)
  then have hr: "has_row (job_id job) (db w2)"
    using assms(1) has_row_running[of "job_id job" "job_id job" "db w"]
    by (simp add: has_row_def)
  have j2: "set_running job\<lparr>job_status := Completed, job_completed_at := Some t\<rparr>
      = set_completed t (set_running job)" for t
    by (simp add: set_completed_def)
  show ?thesis
    using assms hr
    by (simp add: process_forecast_job_def job_save_eq Let_def
        timezone_now_def set_running_alt running_world_def j2 fold_copy_completed)
qed


lemma terminal_update_failed: "terminal_update (set_failed t m \<circ> set_running)"
  by (simp add: terminal_update_def set_failed_def set_running_def)

lemma terminal_update_completed: "terminal_update (set_completed t \<circ> set_running)"
  by (simp add: terminal_update_def set_completed_def set_running_def)

lemma job_table_update_rows:
  "job_table (update_rows jid f d) = map (\<lambda>row. if job_id row = jid then f row else row) (job_table d)"
  by (simp add: update_rows_def)

lemma job_table_update_rows2:
  "job_table (update_rows jid g (update_rows jid set_running d))
     = map (\<lambda>row. if job_id row = jid then (g \<circ> set_running) row else row) (job_table d)"
  by (simp add: update_rows_def)

lemma db_after_now [simp]: "db (snd (timezone_now w)) = db w"
  by (simp add: timezone_now_def)

lemma process_job_table:
  assumes "has_row (job_id job) (db w)"
  shows "\<exists>f. terminal_update f \<and>
     job_table (db (snd (snd (process_forecast_job fo job h w))))
       = map (\<lambda>row. if job_id row = job_id job then f row else row) (job_table (db w))"
proof (cases "portfolio_sites (db w) (job_portfolio job) = []")
  case True
  have "job_table (db (snd (snd (process_forecast_job fo job h w))))
      = map (\<lambda>row. if job_id row = job_id job
            then (set_failed (clock w (clock_reads w)) ''Portfolio has no sites'' \<circ> set_running) row
            else row) (job_table (db w))"
    unfolding process_empty[OF assms True] by (simp add: job_table_update_rows2)
  then show ?thesis using terminal_update_failed by blast
next
  case False
  obtain exc w2 where fs:
    "forecast_sites fo (set_running job) h (portfolio_sites (db w) (job_portfolio job))
           (running_world job w) = (exc, w2)"
    by (cases "forecast_sites fo (set_running job) h (portfolio_sites (db w) (job_portfolio job))
           (running_world job w)") blast
  show ?thesis
  proof (cases exc)
    case (Some e)
    have "job_table (db (snd (snd (process_forecast_job fo job h w))))
      = map (\<lambda>row. if job_id row = job_id job
            then (set_failed (clock w2 (clock_reads w2)) (str_of_error e) \<circ> set_running) row
            else row) (job_table (db w))"
      unfolding process_raised[OF assms False fs[unfolded Some]]
      by (simp add: job_table_update_rows2)
    then show ?thesis using terminal_update_failed by blast
  next
    case None
    have "same_frame (running_world job w) w2"
      using forecast_sites_frame[of "running_world job w" fo "set_running job" h
          "portfolio_sites (db w) (job_portfolio job)"] fs by simp
    then have jt: "job_table (db w2) = job_table (update_rows (job_id job) set_running (db w))"
      by (simp add: same_frame_def db_frame_def running_world_def)
    have "job_table (update_rows (job_id job) (set_completed t) (db w2))
        = map (\<lambda>row. if job_id row = job_id job then (set_completed t \<circ> set_running) row else row)
            (job_table (db w))" for t
      using jt by (simp add: update_rows_def)
    then have "job_table (db (snd (snd (process_forecast_job fo job h w))))
      = map (\<lambda>row. if job_id row = job_id job
            then (set_completed (clock w2 (clock_reads w2)) \<circ> set_running) row
            else row) (job_table (db w))"
      unfolding process_done[OF assms False fs[unfolded None]]
      by simp
    then show ?thesis using terminal_update_completed by blast
  qed
qed

lemma process_job_table_no_row:
  assumes "\<not> has_row (job_id job) (db w)"
  shows "db (snd (snd (process_forecast_job fo job h w))) = db w"
  by (subst process_no_row[OF assms]) (simp add: timezone_now_def)


lemma ForecastJob_create_eq:
  "ForecastJob_create uuid now pid horizon d =
     (if enforces_checks d \<and> horizon < 0
        then Inl (IntegrityError ''CHECK constraint failed: forecast_horizon'')
      else if has_row uuid d
        then Inl (IntegrityError ''UNIQUE constraint failed: forecastjob.id'')
      else Inr (new_job uuid now pid horizon,
                d\<lparr>job_table := job_table d @ [new_job uuid now pid horizon]\<rparr>))"
  by (simp add: ForecastJob_create_def has_row_def new_job_def Let_def)

lemma trigger_eq:
  assumes "get_portfolio (db w) pid = Some p" and "get_site_count (db w) pid \<noteq> 0"
  shows "trigger_portfolio_forecast fo self pid fh uuid w =
     (case ForecastJob_create uuid (clock w (clock_reads w)) pid (effective_horizon self fh) (db w) of
        Inl e \<Rightarrow> (Inl (trigger_reraise e), snd (timezone_now w))
      | Inr (job, d) \<Rightarrow>
          (case process_forecast_job fo job (effective_horizon self fh)
                  ((snd (timezone_now w))\<lparr>db := d\<rparr>) of
             (Inl e, job', w2) \<Rightarrow> (Inl (trigger_reraise e), w2)
           | (Inr u, job', w2) \<Rightarrow> (Inr job', w2)))"
  using assms
  unfolding trigger_portfolio_forecast_def effective_horizon_def timezone_now_def Let_def
  by (simp cong: sum.case_cong prod.case_cong)

lemma trigger_world:
  "snd (trigger_portfolio_forecast fo self pid fh uuid w) = w
   \<or> snd (trigger_portfolio_forecast fo self pid fh uuid w) = snd (timezone_now w)
   \<or> (\<not> has_row uuid (db w) \<and>
       snd (trigger_portfolio_forecast fo self pid fh uuid w) =
         snd (snd (process_forecast_job fo
            (new_job uuid (clock w (clock_reads w)) pid (effective_horizon self fh))
            (effective_horizon self fh)
            ((snd (timezone_now w))\<lparr>db := (db w)\<lparr>job_table := job_table (db w)
               @ [new_job uuid (clock w (clock_reads w)) pid (effective_horizon self fh)]\<rparr>\<rparr>))))"
proof (cases "get_portfolio (db w) pid")
  case None
  then show ?thesis by (simp add: trigger_portfolio_forecast_def)
next
  case (Some p)
  show ?thesis
  proof (cases "get_site_count (db w) pid = 0")
    case True
    then show ?thesis using Some by (simp add: trigger_portfolio_forecast_def)
  next
    case False
    show ?thesis
      unfolding trigger_eq[OF Some False] ForecastJob_create_eq
      by (simp split: prod.splits sum.splits)
  qed
qed

lemma job_invariant_terminal:
  "job_status j \<in> {Completed, Failed} \<Longrightarrow> job_completed_at j \<noteq> None \<Longrightarrow> job_invariant j"
  by (auto simp: job_invariant_def)

lemma process_invariant:
  assumes "all_jobs_invariant w"
  shows "all_jobs_invariant (snd (snd (process_forecast_job fo job h w)))"
proof (cases "has_row (job_id job) (db w)")
  case True
  from process_job_table[OF True, of fo h] obtain f where f: "terminal_update f"
    "job_table (db (snd (snd (process_forecast_job fo job h w))))
       = map (\<lambda>row. if job_id row = job_id job then f row else row) (job_table (db w))"
    by blast
  have "job_invariant (f row)" for row
    using f(1) by (simp add: terminal_update_def job_invariant_terminal)
  then show ?thesis using assms f(2) by (auto simp: all_jobs_invariant_def)
next
  case False
  then show ?thesis using assms process_job_table_no_row[OF False, of fo h]
    by (simp add: all_jobs_invariant_def)
qed

lemma trigger_invariant:
  assumes "all_jobs_invariant w"
  shows "all_jobs_invariant (snd (trigger_portfolio_forecast fo self pid fh uuid w))"
proof -
  let ?j = "new_job uuid (clock w (clock_reads w)) pid (effective_horizon self fh)"
  let ?w = "(snd (timezone_now w))\<lparr>db := (db w)\<lparr>job_table := job_table (db w) @ [?j]\<rparr>\<rparr>"
  have "job_invariant ?j" by (simp add: job_invariant_def new_job_def)
  then have "all_jobs_invariant ?w" using assms by (auto simp: all_jobs_invariant_def)
  then have "all_jobs_invariant (snd (snd (process_forecast_job fo ?j (effective_horizon self fh) ?w)))"
    by (rule process_invariant)
  moreover have "all_jobs_invariant (snd (timezone_now w))"
    using assms by (simp add: all_jobs_invariant_def)
  ultimately show ?thesis
    using trigger_world[of fo self pid fh uuid w] assms by auto
qed

lemma cancel_invariant:
  assumes "all_jobs_invariant w"
  shows "all_jobs_invariant (snd (cancel_forecast_job jid w))"
proof -
  have "job_invariant (set_failed t m row)" for t m row
    by (simp add: job_invariant_def set_failed_def)
  then have "all_jobs_invariant (w'\<lparr>db := update_rows i (set_failed t m) (db w)\<rparr>)" for w' i t m
    using assms by (auto simp: all_jobs_invariant_def update_rows_def)
  moreover have f: "fold (copy_field (job\<lparr>job_status := Failed, job_completed_at := Some t,
        job_error_message := m\<rparr>)) [F_status, F_completed_at, F_error_message] = set_failed t m"
    for job t m
    by (rule ext) (simp add: set_failed_def)
  ultimately show ?thesis
    using assms
    by (auto simp add: cancel_forecast_job_def job_save_eq timezone_now_def Let_def
        all_jobs_invariant_def f simp del: fold_simps
        split: option.splits)
qed

lemma cleanup_invariant:
  assumes "all_jobs_invariant w"
  shows "all_jobs_invariant (snd (cleanup_old_jobs days w))"
  using assms
  by (auto simp: cleanup_old_jobs_def all_jobs_invariant_def timezone_now_def Let_def)


lemma create_results_rows:
  "create_results j s ps d =
     (case create_rows (job_id j) (site_id s) ps (result_table d) of
        Inl e \<Rightarrow> Inl e
      | Inr rs \<Rightarrow> Inr (d\<lparr>result_table := rs\<rparr>))"
  by (induction ps arbitrary: d) (auto simp: ForecastResult_create_def split: sum.splits)

lemma forecast_sites_indep:
  assumes "job_id j' = job_id j" and "loop_equiv w w'"
  shows "fst (forecast_sites fo j' h ss w') = fst (forecast_sites fo j h ss w)
     \<and> loop_equiv (snd (forecast_sites fo j h ss w)) (snd (forecast_sites fo j' h ss w'))"
  using assms(2)
proof (induction ss arbitrary: w w')
  case Nil
  then show ?case by simp
next
  case (Cons s ss)
  let ?w1 = "snd (timezone_now w)"
  let ?pr = "model_predict fo (heap ?w1) (get_model (registry w) (site_type s)) (Some s) h
                 (fst (timezone_now w))"
  let ?w2 = "?w1\<lparr>heap := snd ?pr\<rparr>"
  let ?v1 = "snd (timezone_now w')"
  let ?qr = "model_predict fo (heap ?v1) (get_model (registry w') (site_type s)) (Some s) h
                 (fst (timezone_now w'))"
  let ?v2 = "?v1\<lparr>heap := snd ?qr\<rparr>"
  have pq: "?qr = ?pr" using Cons.prems by (simp add: loop_equiv_def timezone_now_def)
  have e2: "loop_equiv ?w2 ?v2" using Cons.prems pq by (simp add: loop_equiv_def timezone_now_def)
  show ?case
  proof (cases "fst ?pr")
    case (Inl e)
    then show ?thesis using e2 pq
      by (simp add: forecast_sites_Cons Let_def del: forecast_sites.simps)
  next
    case (Inr ps)
    have rt: "result_table (db ?v2) = result_table (db ?w2)"
      using e2 by (simp add: loop_equiv_def)
    show ?thesis
    proof (cases "create_rows (job_id j) (site_id s) ps (result_table (db ?w2))")
      case (Inl e)
      then show ?thesis using e2 pq Inr rt assms(1)
        by (simp add: forecast_sites_Cons Let_def create_results_rows del: forecast_sites.simps)
    next
      case r: (Inr rs)
      have "loop_equiv (?w2\<lparr>db := (db ?w2)\<lparr>result_table := rs\<rparr>\<rparr>)
              (?v2\<lparr>db := (db ?v2)\<lparr>result_table := rs\<rparr>\<rparr>)"
        using e2 by (simp add: loop_equiv_def)
      from Cons.IH[OF this] show ?thesis using pq Inr rt r assms(1)
        by (simp add: forecast_sites_Cons Let_def create_results_rows del: forecast_sites.simps)
    qed
  qed
qed

lemma loop_equiv_running: "loop_equiv w (running_world job w)"
  by (simp add: loop_equiv_def running_world_def)

lemma forecast_sites_running:
  "fst (forecast_sites fo (set_running job) h ss (running_world job w))
     = fst (forecast_sites fo job h ss w)"
  using forecast_sites_indep[of "set_running job" job w "running_world job w" fo h ss]
    loop_equiv_running[of w job]
  by simp


lemma process_result_job:
  assumes "fst (process_forecast_job fo job h w) = Inr u"
  shows "\<exists>t. fst (snd (process_forecast_job fo job h w)) = set_completed t (set_running job)"
proof (cases "has_row (job_id job) (db w)")
  case False
  then show ?thesis using assms by (simp add: process_no_row)
next
  case True
  show ?thesis
  proof (cases "portfolio_sites (db w) (job_portfolio job) = []")
    case e: True
    then show ?thesis using assms by (simp add: process_empty[OF True e])
  next
    case ne: False
    obtain exc w2 where fs:
      "forecast_sites fo (set_running job) h (portfolio_sites (db w) (job_portfolio job))
           (running_world job w) = (exc, w2)"
      by (cases "forecast_sites fo (set_running job) h (portfolio_sites (db w) (job_portfolio job))
           (running_world job w)") blast
    show ?thesis
    proof (cases exc)
      case (Some e)
      then show ?thesis using assms by (simp add: process_raised[OF True ne fs[unfolded Some]])
    next
      case None
      show ?thesis by (auto simp: process_done[OF True ne fs[unfolded None]])
    qed
  qed
qed

lemma trigger_created:
  assumes "get_portfolio (db w) pid = Some p" and "get_site_count (db w) pid \<noteq> 0"
    and "\<not> (enforces_checks (db w) \<and> effective_horizon self fh < 0)"
    and "\<not> has_row uuid (db w)"
  shows "trigger_portfolio_forecast fo self pid fh uuid w =
     (case process_forecast_job fo
            (new_job uuid (clock w (clock_reads w)) pid (effective_horizon self fh))
            (effective_horizon self fh)
            ((snd (timezone_now w))\<lparr>db := (db w)\<lparr>job_table := job_table (db w)
               @ [new_job uuid (clock w (clock_reads w)) pid (effective_horizon self fh)]\<rparr>\<rparr>) of
        (Inl e, job', w2) \<Rightarrow> (Inl (trigger_reraise e), w2)
      | (Inr u, job', w2) \<Rightarrow> (Inr job', w2))"
  unfolding trigger_eq[OF assms(1,2)] ForecastJob_create_eq
  using assms(3,4) by auto

lemma trigger_created_snd:
  assumes "get_portfolio (db w) pid = Some p" and "get_site_count (db w) pid \<noteq> 0"
    and "\<not> (enforces_checks (db w) \<and> effective_horizon self fh < 0)"
    and "\<not> has_row uuid (db w)"
  shows "snd (trigger_portfolio_forecast fo self pid fh uuid w) =
     snd (snd (process_forecast_job fo
            (new_job uuid (clock w (clock_reads w)) pid (effective_horizon self fh))
            (effective_horizon self fh)
            ((snd (timezone_now w))\<lparr>db := (db w)\<lparr>job_table := job_table (db w)
               @ [new_job uuid (clock w (clock_reads w)) pid (effective_horizon self fh)]\<rparr>\<rparr>)))"
  unfolding trigger_created[OF assms]
  by (simp split: prod.splits sum.splits)

lemma trigger_result_job:
  assumes "fst (trigger_portfolio_forecast fo self pid fh uuid w) = Inr job"
  shows "job_id job = uuid \<and> job_portfolio job = pid
     \<and> job_forecast_horizon job = effective_horizon self fh
     \<and> job_status job = Completed \<and> job_completed_at job \<noteq> None"
proof (cases "get_portfolio (db w) pid")
  case None
  then show ?thesis using assms by (simp add: trigger_portfolio_forecast_def)
next
  case (Some p)
  show ?thesis
  proof (cases "get_site_count (db w) pid = 0")
    case True
    then show ?thesis using assms Some by (simp add: trigger_portfolio_forecast_def)
  next
    case False
    let ?j = "new_job uuid (clock w (clock_reads w)) pid (effective_horizon self fh)"
    let ?w = "(snd (timezone_now w))\<lparr>db := (db w)\<lparr>job_table := job_table (db w) @ [?j]\<rparr>\<rparr>"
    let ?P = "process_forecast_job fo ?j (effective_horizon self fh) ?w"
    from assms have c: "fst ?P = Inr () \<and> job = fst (snd ?P)"
      unfolding trigger_eq[OF Some False] ForecastJob_create_eq
      by (auto split: if_splits prod.splits sum.splits)
    then obtain t where "fst (snd ?P) = set_completed t (set_running ?j)"
      using process_result_job[of fo ?j "effective_horizon self fh" ?w "()"] by blast
    then show ?thesis using c
      by (simp add: set_completed_def set_running_def new_job_def)
  qed
qed

lemma trigger_job_row:
  assumes "get_portfolio (db w) pid = Some p" and "get_site_count (db w) pid \<noteq> 0"
    and "\<not> (enforces_checks (db w) \<and> effective_horizon self fh < 0)"
    and "\<not> has_row uuid (db w)"
  shows "\<exists>j \<in> set (job_table (db (snd (trigger_portfolio_forecast fo self pid fh uuid w)))).
     job_id j = uuid \<and> job_portfolio j = pid
     \<and> job_forecast_horizon j = effective_horizon self fh
     \<and> job_status j \<in> {Completed, Failed} \<and> job_completed_at j \<noteq> None"
proof -
  let ?j = "new_job uuid (clock w (clock_reads w)) pid (effective_horizon self fh)"
  let ?w = "(snd (timezone_now w))\<lparr>db := (db w)\<lparr>job_table := job_table (db w) @ [?j]\<rparr>\<rparr>"
  have hr: "has_row (job_id ?j) (db ?w)" by (simp add: has_row_def new_job_def)
  from process_job_table[OF hr, of fo "effective_horizon self fh"] obtain f where f:
    "terminal_update f"
    "job_table (db (snd (snd (process_forecast_job fo ?j (effective_horizon self fh) ?w))))
       = map (\<lambda>row. if job_id row = job_id ?j then f row else row) (job_table (db ?w))"
    by blast
  have "f ?j \<in> set (job_table (db (snd (snd (process_forecast_job fo ?j
      (effective_horizon self fh) ?w)))))"
    unfolding f(2) by (simp add: image_iff)
  moreover have "job_id (f ?j) = uuid \<and> job_portfolio (f ?j) = pid
     \<and> job_forecast_horizon (f ?j) = effective_horizon self fh
     \<and> job_status (f ?j) \<in> {Completed, Failed} \<and> job_completed_at (f ?j) \<noteq> None"
    using f(1) by (simp add: terminal_update_def new_job_def)
  ultimately show ?thesis
    unfolding trigger_created_snd[OF assms] by blast
qed

text \<open>
  Claim C10. A call of \<open>trigger_portfolio_forecast\<close> with \<open>forecast_horizon = 0\<close>
  is the call with the horizon omitted: the same result and the same state, for every
  portfolio id and every service. A job that it returns has the default horizon of the
  service, which is 24 for \<open>ForecastService()\<close>; and for a portfolio that exists and
  has a site, and a fresh job key, the call creates a job row, of horizon 24.
\<close>

theorem trigger_zero_horizon_is_default:
  "trigger_portfolio_forecast fo self pid (Some 0) uuid w
     = trigger_portfolio_forecast fo self pid None uuid w
   \<and> (\<forall>job. fst (trigger_portfolio_forecast fo self pid (Some 0) uuid w) = Inr job
         \<longrightarrow> job_forecast_horizon job = svc_forecast_horizon self)
   \<and> svc_forecast_horizon (ForecastService_init None) = 24
   \<and> (get_portfolio (db w) pid \<noteq> None \<and> get_site_count (db w) pid \<noteq> 0
       \<and> uuid \<notin> job_id ` set (job_table (db w)) \<longrightarrow>
         (\<exists>j \<in> set (job_table (db (snd (trigger_portfolio_forecast fo (ForecastService_init None)
                 pid (Some 0) uuid w)))).
            job_id j = uuid \<and> job_portfolio j = pid \<and> job_forecast_horizon j = 24))"
proof (intro conjI allI impI)
  show "trigger_portfolio_forecast fo self pid (Some 0) uuid w
     = trigger_portfolio_forecast fo self pid None uuid w"
    by (simp add: trigger_portfolio_forecast_def cong: option.case_cong if_cong)
next
  fix job
  assume "fst (trigger_portfolio_forecast fo self pid (Some 0) uuid w) = Inr job"
  from trigger_result_job[OF this] show "job_forecast_horizon job = svc_forecast_horizon self"
    by (simp add: effective_horizon_def)
next
  show "svc_forecast_horizon (ForecastService_init None) = 24"
    by (simp add: ForecastService_init_def)
next
  assume a: "get_portfolio (db w) pid \<noteq> None \<and> get_site_count (db w) pid \<noteq> 0
       \<and> uuid \<notin> job_id ` set (job_table (db w))"
  then obtain p where p: "get_portfolio (db w) pid = Some p" by blast
  have e: "effective_horizon (ForecastService_init None) (Some 0) = 24"
    by (simp add: effective_horizon_def ForecastService_init_def)
  have h: "\<not> has_row uuid (db w)" using a by (auto simp: has_row_def)
  from trigger_job_row[OF p _ _ h, of "ForecastService_init None" "Some 0" fo] a e
  show "\<exists>j \<in> set (job_table (db (snd (trigger_portfolio_forecast fo (ForecastService_init None)
                 pid (Some 0) uuid w)))).
            job_id j = uuid \<and> job_portfolio j = pid \<and> job_forecast_horizon j = 24"
    by auto
qed


lemma process_raised_result:
  assumes "has_row (job_id job) (db w)"
    and "fst (forecast_sites fo job h (portfolio_sites (db w) (job_portfolio job)) w) = Some e"
  shows "\<exists>t. process_forecast_job fo job h w =
     (Inl (ForecastServiceError (''Forecast processing failed: '' @ str_of_error e)),
      set_failed t (str_of_error e) (set_running job),
      (snd (snd (process_forecast_job fo job h w))))
    \<and> db (snd (snd (process_forecast_job fo job h w))) =
        update_rows (job_id job) (set_failed t (str_of_error e))
          (update_rows (job_id job) set_running (db w))"
proof -
  let ?ss = "portfolio_sites (db w) (job_portfolio job)"
  have ne: "?ss \<noteq> []" using assms(2) by auto
  obtain w2 where fs: "forecast_sites fo (set_running job) h ?ss (running_world job w) = (Some e, w2)"
    using forecast_sites_running[of fo job h ?ss w] assms(2)
    by (cases "forecast_sites fo (set_running job) h ?ss (running_world job w)") simp
  show ?thesis
    unfolding process_raised[OF assms(1) ne fs]
    by (rule exI[of _ "clock w2 (clock_reads w2)"]) simp
qed

text \<open>
  The loop over the sites ends with an exception exactly when a \<open>predict\<close> or the
  creation of a result raises it: the exception of the first site is the exception of
  the loop, and an exception of the loop is one that a \<open>predict\<close> or a creation of
  results raised for a site of the list.
\<close>

lemma forecast_sites_first_raises:
  assumes "fst (model_predict fo (heap w) (get_model (registry w) (site_type s)) (Some s) h
             (clock w (clock_reads w))) = Inl e"
  shows "fst (forecast_sites fo job h (s # ss) w) = Some e"
  using assms
  by (simp add: forecast_sites_Cons Let_def timezone_now_def del: forecast_sites.simps)

lemma forecast_sites_exception_source:
  assumes "fst (forecast_sites fo job h ss w) = Some e"
  shows "\<exists>s \<in> set ss.
           (\<exists>hp now. fst (model_predict fo hp (get_model (registry w) (site_type s)) (Some s) h now)
                        = Inl e)
           \<or> (\<exists>ps d. create_results job s ps d = Inl e)"
  using assms
proof (induction ss arbitrary: w)
  case Nil
  then show ?case by simp
next
  case (Cons s ss)
  let ?w1 = "snd (timezone_now w)"
  let ?pr = "model_predict fo (heap ?w1) (get_model (registry w) (site_type s)) (Some s) h
                 (fst (timezone_now w))"
  let ?w2 = "?w1\<lparr>heap := snd ?pr\<rparr>"
  show ?case
  proof (cases "fst ?pr")
    case (Inl e')
    then have "e' = e" using Cons.prems
      by (simp add: forecast_sites_Cons Let_def del: forecast_sites.simps)
    then show ?thesis using Inl by auto
  next
    case (Inr ps)
    show ?thesis
    proof (cases "create_results job s ps (db ?w2)")
      case (Inl e')
      then have "e' = e" using Cons.prems Inr
        by (simp add: forecast_sites_Cons Let_def del: forecast_sites.simps)
      then show ?thesis using Inl by auto
    next
      case r: (Inr d)
      have "fst (forecast_sites fo job h ss (?w2\<lparr>db := d\<rparr>)) = Some e"
        using Cons.prems Inr r
        by (simp add: forecast_sites_Cons Let_def del: forecast_sites.simps)
      from Cons.IH[OF this] have "\<exists>s \<in> set ss.
           (\<exists>hp now. fst (model_predict fo hp (get_model (registry w) (site_type s)) (Some s) h now)
                        = Inl e)
           \<or> (\<exists>ps d. create_results job s ps d = Inl e)"
        by (simp add: timezone_now_def)
      then show ?thesis by auto
    qed
  qed
qed


text \<open>
  Claim C3. Let the row of the job exist, and let the loop over the sites of the
  portfolio end with the exception \<open>e\<close>, raised by a \<open>predict\<close> or by the creation
  of a result. Then \<open>_process_forecast_job\<close> raises the service error
  \<open>ForecastServiceError\<close> that carries the message of \<open>e\<close>; the table of results is
  the one of before the call, so no result of the attempt is kept; and the row of the
  job, as the \<open>job\<close> object, has the status \<open>failed\<close>, a completion time and the
  message of \<open>e\<close> as its error message.
\<close>

theorem process_failure_aborts:
  assumes "\<exists>row \<in> set (job_table (db w)). job_id row = job_id job"
    and "fst (forecast_sites fo job h (portfolio_sites (db w) (job_portfolio job)) w) = Some e"
  shows "fst (process_forecast_job fo job h w)
       = Inl (ForecastServiceError (''Forecast processing failed: '' @ str_of_error e))
     \<and> result_table (db (snd (snd (process_forecast_job fo job h w)))) = result_table (db w)
     \<and> (\<exists>row \<in> set (job_table (db (snd (snd (process_forecast_job fo job h w))))).
           job_id row = job_id job)
     \<and> (\<exists>t. (\<forall>row \<in> set (job_table (db (snd (snd (process_forecast_job fo job h w))))).
                 job_id row = job_id job \<longrightarrow>
                   job_status row = Failed \<and> job_completed_at row = Some t
                   \<and> job_error_message row = str_of_error e)
            \<and> job_status (fst (snd (process_forecast_job fo job h w))) = Failed
            \<and> job_completed_at (fst (snd (process_forecast_job fo job h w))) = Some t
            \<and> job_error_message (fst (snd (process_forecast_job fo job h w))) = str_of_error e)"
proof -
  have hr: "has_row (job_id job) (db w)" using assms(1) by (simp add: has_row_def)
  from process_raised_result[OF hr assms(2)] obtain t where t:
    "process_forecast_job fo job h w =
     (Inl (ForecastServiceError (''Forecast processing failed: '' @ str_of_error e)),
      set_failed t (str_of_error e) (set_running job),
      (snd (snd (process_forecast_job fo job h w))))"
    "db (snd (snd (process_forecast_job fo job h w))) =
        update_rows (job_id job) (set_failed t (str_of_error e))
          (update_rows (job_id job) set_running (db w))"
    by blast
  have a: "fst (process_forecast_job fo job h w)
       = Inl (ForecastServiceError (''Forecast processing failed: '' @ str_of_error e))"
    using t(1) by (metis fst_conv)
  have j: "fst (snd (process_forecast_job fo job h w)) = set_failed t (str_of_error e) (set_running job)"
    using t(1) by (metis fst_conv snd_conv)
  have b: "result_table (db (snd (snd (process_forecast_job fo job h w)))) = result_table (db w)"
    unfolding t(2) by simp
  have c: "\<exists>row \<in> set (job_table (db (snd (snd (process_forecast_job fo job h w))))).
           job_id row = job_id job"
    using hr unfolding t(2) by (simp add: has_row_def[symmetric])
  have d: "\<forall>row \<in> set (job_table (db (snd (snd (process_forecast_job fo job h w))))).
                 job_id row = job_id job \<longrightarrow>
                   job_status row = Failed \<and> job_completed_at row = Some t
                   \<and> job_error_message row = str_of_error e"
    unfolding t(2) by (auto simp: update_rows_def set_failed_def set_running_def)
  have e: "job_status (fst (snd (process_forecast_job fo job h w))) = Failed
            \<and> job_completed_at (fst (snd (process_forecast_job fo job h w))) = Some t
            \<and> job_error_message (fst (snd (process_forecast_job fo job h w))) = str_of_error e"
    unfolding j by (simp add: set_failed_def)
  show ?thesis using a b c d e by blast
qed


lemma get_model_in_registry:
  "get_model reg st \<in> set (default_model reg # map snd (models reg))"
proof (cases "map_of (models reg) (lower st)")
  case None
  then show ?thesis by (simp add: get_model_def)
next
  case (Some m)
  then have "(lower st, m) \<in> set (models reg)" by (rule map_of_SomeD)
  then have "m \<in> snd ` set (models reg)" by force
  then show ?thesis using Some by (simp add: get_model_def)
qed

lemma registry_all_random_get:
  assumes "registry_all_random w"
  shows "is_random_model (heap w) (get_model (registry w) st)"
  using assms get_model_in_registry[of "registry w" st]
  unfolding registry_all_random_def list_all_iff by blast

lemma model_predict_nonpositive:
  assumes "h \<le> 0" and "is_random_model hp a"
  shows "fst (model_predict fo hp a (Some s) h now)
     = Inl (ValueError ''Forecast horizon must be positive'')"
  using assms
  by (auto simp: model_predict_def is_random_model_def predict_def
      split: py_object.splits forecast_model.splits)

lemma forecast_sites_nonpositive:
  assumes "h \<le> 0" and "registry_all_random w" and "ss \<noteq> []"
  shows "fst (forecast_sites fo job h ss w) = Some (ValueError ''Forecast horizon must be positive'')"
proof -
  obtain s ss' where ss: "ss = s # ss'" using assms(3) by (cases ss) auto
  have "is_random_model (heap (snd (timezone_now w))) (get_model (registry w) (site_type s))"
    using registry_all_random_get[OF assms(2), of "site_type s"] by (simp add: timezone_now_def)
  from model_predict_nonpositive[OF assms(1) this, of fo s "fst (timezone_now w)"]
  show ?thesis unfolding ss
    by (simp add: forecast_sites_Cons Let_def del: forecast_sites.simps)
qed

text \<open>
  Claim C1, amended. For a portfolio that exists and has a site, models of the
  registry that are all \<open>RandomForecastModel\<close>s, and a horizon \<open>h < 0\<close>,
  \<open>trigger_portfolio_forecast\<close> raises a \<open>ForecastServiceError\<close> and keeps no
  result. No job row is created when the database enforces the check of the
  \<open>PositiveIntegerField\<close>; otherwise (the key being fresh) the job row is created and
  left \<open>failed\<close>, with the message of the model's \<open>ValueError\<close>. The horizon 0 is
  no error: the call is the one with the horizon omitted.
\<close>

theorem trigger_negative_horizon:
  assumes "get_portfolio (db w) pid = Some p" and "get_site_count (db w) pid \<noteq> 0"
    and "h < 0" and "registry_all_random w"
  shows "(\<exists>m. fst (trigger_portfolio_forecast fo self pid (Some h) uuid w)
              = Inl (ForecastServiceError m))
     \<and> result_table (db (snd (trigger_portfolio_forecast fo self pid (Some h) uuid w)))
         = result_table (db w)
     \<and> (enforces_checks (db w) \<longrightarrow>
          job_table (db (snd (trigger_portfolio_forecast fo self pid (Some h) uuid w)))
            = job_table (db w))
     \<and> (\<not> enforces_checks (db w) \<and> uuid \<notin> job_id ` set (job_table (db w)) \<longrightarrow>
          (\<exists>j \<in> set (job_table (db (snd (trigger_portfolio_forecast fo self pid (Some h) uuid w)))).
             job_id j = uuid \<and> job_forecast_horizon j = h \<and> job_status j = Failed
             \<and> job_error_message j = ''Forecast horizon must be positive''))
     \<and> trigger_portfolio_forecast fo self pid (Some 0) uuid w
         = trigger_portfolio_forecast fo self pid None uuid w"
proof -
  let ?T = "trigger_portfolio_forecast fo self pid (Some h) uuid w"
  have eh: "effective_horizon self (Some h) = h" using assms(3) by (simp add: effective_horizon_def)
  have z: "trigger_portfolio_forecast fo self pid (Some 0) uuid w
         = trigger_portfolio_forecast fo self pid None uuid w"
    by (simp add: trigger_portfolio_forecast_def cong: option.case_cong if_cong)
  show ?thesis
  proof (cases "enforces_checks (db w) \<or> has_row uuid (db w)")
    case True
    then have "\<exists>m. ?T = (Inl (ForecastServiceError m), snd (timezone_now w))"
      unfolding trigger_eq[OF assms(1,2)] ForecastJob_create_eq eh
      using assms(3) by auto
    then obtain m where m: "?T = (Inl (ForecastServiceError m), snd (timezone_now w))" by blast
    have "\<not> (\<not> enforces_checks (db w) \<and> uuid \<notin> job_id ` set (job_table (db w)))"
      using True by (auto simp: has_row_def)
    then show ?thesis using z unfolding m by auto
  next
    case False
    let ?j = "new_job uuid (clock w (clock_reads w)) pid h"
    let ?w = "(snd (timezone_now w))\<lparr>db := (db w)\<lparr>job_table := job_table (db w) @ [?j]\<rparr>\<rparr>"
    let ?P = "process_forecast_job fo ?j h ?w"
    let ?msg = "''Forecast horizon must be positive''"
    have c: "?T = (case ?P of (Inl e, job', w2) \<Rightarrow> (Inl (trigger_reraise e), w2)
                   | (Inr u, job', w2) \<Rightarrow> (Inr job', w2))"
      using trigger_created[OF assms(1,2), of self "Some h" uuid fo] False
      unfolding eh by simp
    have hr: "has_row (job_id ?j) (db ?w)" by (simp add: has_row_def new_job_def)
    have ps: "portfolio_sites (db ?w) (job_portfolio ?j) = portfolio_sites (db w) pid"
      by (simp add: portfolio_sites_def new_job_def)
    have ne: "portfolio_sites (db w) pid \<noteq> []"
      using assms(2) by (simp add: get_site_count_def)
    have rr: "registry_all_random ?w"
      using assms(4) by (simp add: registry_all_random_def timezone_now_def)
    have fs: "fst (forecast_sites fo ?j h (portfolio_sites (db ?w) (job_portfolio ?j)) ?w)
        = Some (ValueError ?msg)"
      unfolding ps using forecast_sites_nonpositive[OF _ rr ne, of h fo ?j] assms(3) by simp
    from process_raised_result[OF hr fs] obtain t where t:
      "?P = (Inl (ForecastServiceError (''Forecast processing failed: '' @ ?msg)),
             set_failed t ?msg (set_running ?j), snd (snd ?P))"
      "db (snd (snd ?P)) = update_rows (job_id ?j) (set_failed t ?msg)
          (update_rows (job_id ?j) set_running (db ?w))"
      by auto
    have T: "?T = (Inl (ForecastServiceError (''Failed to trigger forecast: ''
                     @ ''Forecast processing failed: '' @ ?msg)), snd (snd ?P))"
      unfolding c by (subst t(1)) simp
    have r: "result_table (db (snd (snd ?P))) = result_table (db w)"
      unfolding t(2) by simp
    have "set_failed t ?msg (set_running ?j) \<in> set (job_table (db (snd (snd ?P))))"
      unfolding t(2) by (simp add: update_rows_def image_iff)
    moreover have "job_id (set_failed t ?msg (set_running ?j)) = uuid
        \<and> job_forecast_horizon (set_failed t ?msg (set_running ?j)) = h
        \<and> job_status (set_failed t ?msg (set_running ?j)) = Failed
        \<and> job_error_message (set_failed t ?msg (set_running ?j)) = ?msg"
      by (simp add: set_failed_def set_running_def new_job_def)
    ultimately have row: "\<exists>j \<in> set (job_table (db (snd (snd ?P)))).
             job_id j = uuid \<and> job_forecast_horizon j = h \<and> job_status j = Failed
             \<and> job_error_message j = ?msg"
      by blast
    show ?thesis using False z r row unfolding T by simp
  qed
qed

text \<open>
  Claim C8. If every job row satisfies the invariant (the completion time is null if
  and only if the status is \<open>pending\<close> or \<open>running\<close>), then so does every job row
  after \<open>trigger_portfolio_forecast\<close> (the creation of a job and its processing,
  successful or failed), after \<open>_process_forecast_job\<close> of any job, after
  \<open>cancel_forecast_job\<close> and after \<open>cleanup_old_jobs\<close>; and the job that
  \<open>trigger_portfolio_forecast\<close> returns satisfies it.
\<close>

theorem job_invariant_preserved:
  assumes "\<forall>j \<in> set (job_table (db w)). job_invariant j"
  shows "(\<forall>j \<in> set (job_table (db (snd (trigger_portfolio_forecast fo self pid fh uuid w)))).
            job_invariant j)
     \<and> (\<forall>j. fst (trigger_portfolio_forecast fo self pid fh uuid w) = Inr j \<longrightarrow> job_invariant j)
     \<and> (\<forall>j \<in> set (job_table (db (snd (snd (process_forecast_job fo job h w))))). job_invariant j)
     \<and> (\<forall>j \<in> set (job_table (db (snd (cancel_forecast_job jid w)))). job_invariant j)
     \<and> (\<forall>j \<in> set (job_table (db (snd (cleanup_old_jobs days w)))). job_invariant j)"
proof -
  have a: "all_jobs_invariant w" using assms by (simp add: all_jobs_invariant_def)
  have "job_invariant j" if "fst (trigger_portfolio_forecast fo self pid fh uuid w) = Inr j" for j
    using trigger_result_job[OF that] by (simp add: job_invariant_def)
  then show ?thesis
    using trigger_invariant[OF a, of fo self pid fh uuid] process_invariant[OF a, of fo job h]
      cancel_invariant[OF a, of jid] cleanup_invariant[OF a, of days]
    unfolding all_jobs_invariant_def by blast
qed


lemma demo_portfolio: "get_portfolio (db demo_world) 1 = Some \<lparr>portfolio_id = 1, portfolio_name = ''P''\<rparr>"
  by code_simp

lemma demo_site_count: "get_site_count (db demo_world) 1 \<noteq> 0"
  by code_simp

lemma demo_all_random: "registry_all_random demo_world"
  by code_simp

lemma demo_checks: "enforces_checks (db demo_world)"
  by code_simp

lemma demo_no_jobs: "job_table (db demo_world) = []"
  by code_simp

lemma demo_unchecked_portfolio:
  "get_portfolio (db demo_world_unchecked) 1 = Some \<lparr>portfolio_id = 1, portfolio_name = ''P''\<rparr>"
  by code_simp

lemma demo_unchecked_site_count: "get_site_count (db demo_world_unchecked) 1 \<noteq> 0"
  by code_simp

lemma demo_unchecked_all_random: "registry_all_random demo_world_unchecked"
  by code_simp

lemma demo_unchecked_checks: "\<not> enforces_checks (db demo_world_unchecked)"
  by code_simp

lemma demo_unchecked_no_jobs: "job_table (db demo_world_unchecked) = []"
  by code_simp

lemma demo_trigger_zero:
  "fst (trigger_portfolio_forecast exact_floats (ForecastService_init None) 1 (Some 0) ''job-1''
          demo_world) = Inr demo_job_completed"
  by code_simp

lemma demo_trigger_zero_jobs:
  "job_table (db (snd (trigger_portfolio_forecast exact_floats (ForecastService_init None) 1
          (Some 0) ''job-1'' demo_world))) = [demo_job_completed]"
  by code_simp

text \<open>
  Claim C1, as stated, fails for the horizon 0: with the default service, on a
  portfolio of two sites, the call returns a completed job of horizon 24 and the job
  row is in the table.
\<close>

theorem trigger_zero_horizon_counterexample:
  "fst (trigger_portfolio_forecast exact_floats (ForecastService_init None) 1 (Some 0) ''job-1''
          demo_world) = Inr demo_job_completed
   \<and> job_table (db (snd (trigger_portfolio_forecast exact_floats (ForecastService_init None) 1
          (Some 0) ''job-1'' demo_world))) = [demo_job_completed]
   \<and> job_status demo_job_completed = Completed
   \<and> job_forecast_horizon demo_job_completed = 24"
  using demo_trigger_zero demo_trigger_zero_jobs
  by (simp add: demo_job_completed_def demo_job_def)

theorem trigger_negative_horizon_witness:
  "get_portfolio (db demo_world) 1 = Some \<lparr>portfolio_id = 1, portfolio_name = ''P''\<rparr>
   \<and> get_site_count (db demo_world) 1 \<noteq> 0 \<and> (-1::int) < 0 \<and> registry_all_random demo_world
   \<and> enforces_checks (db demo_world)
   \<and> (\<exists>m. fst (trigger_portfolio_forecast exact_floats (ForecastService_init None) 1 (Some (-1))
                ''job-1'' demo_world) = Inl (ForecastServiceError m))
   \<and> job_table (db (snd (trigger_portfolio_forecast exact_floats (ForecastService_init None) 1
          (Some (-1)) ''job-1'' demo_world))) = []
   \<and> get_portfolio (db demo_world_unchecked) 1 = Some \<lparr>portfolio_id = 1, portfolio_name = ''P''\<rparr>
   \<and> get_site_count (db demo_world_unchecked) 1 \<noteq> 0
   \<and> registry_all_random demo_world_unchecked
   \<and> \<not> enforces_checks (db demo_world_unchecked)
   \<and> ''job-1'' \<notin> job_id ` set (job_table (db demo_world_unchecked))
   \<and> (\<exists>j \<in> set (job_table (db (snd (trigger_portfolio_forecast exact_floats
          (ForecastService_init None) 1 (Some (-1)) ''job-1'' demo_world_unchecked)))).
         job_id j = ''job-1'' \<and> job_forecast_horizon j = -1 \<and> job_status j = Failed
         \<and> job_error_message j = ''Forecast horizon must be positive'')"
proof -
  have n: "(-1::int) < 0" by simp
  have f: "''job-1'' \<notin> job_id ` set (job_table (db demo_world_unchecked))"
    by (simp add: demo_unchecked_no_jobs)
  note A = trigger_negative_horizon[OF demo_portfolio demo_site_count n demo_all_random,
      of exact_floats "ForecastService_init None" "''job-1''"]
  note B = trigger_negative_horizon[OF demo_unchecked_portfolio demo_unchecked_site_count n
      demo_unchecked_all_random, of exact_floats "ForecastService_init None" "''job-1''"]
  show ?thesis
    using A B demo_portfolio demo_site_count demo_all_random demo_checks demo_no_jobs
      demo_unchecked_portfolio demo_unchecked_site_count demo_unchecked_all_random
      demo_unchecked_checks f
    by simp
qed

theorem trigger_zero_horizon_is_default_witness:
  "get_portfolio (db demo_world) 1 \<noteq> None \<and> get_site_count (db demo_world) 1 \<noteq> 0
   \<and> ''job-1'' \<notin> job_id ` set (job_table (db demo_world))
   \<and> (\<exists>j \<in> set (job_table (db (snd (trigger_portfolio_forecast exact_floats
          (ForecastService_init None) 1 (Some 0) ''job-1'' demo_world)))).
         job_id j = ''job-1'' \<and> job_portfolio j = 1 \<and> job_forecast_horizon j = 24)
   \<and> trigger_portfolio_forecast exact_floats (ForecastService_init None) 1 (Some 0) ''job-1''
        demo_world
      = trigger_portfolio_forecast exact_floats (ForecastService_init None) 1 None ''job-1''
        demo_world
   \<and> fst (trigger_portfolio_forecast exact_floats (ForecastService_init None) 1 (Some 0)
          ''job-1'' demo_world) = Inr demo_job_completed
   \<and> job_forecast_horizon demo_job_completed
       = svc_forecast_horizon (ForecastService_init None)"
proof -
  have f: "''job-1'' \<notin> job_id ` set (job_table (db demo_world))"
    by (simp add: demo_no_jobs)
  have p: "get_portfolio (db demo_world) 1 \<noteq> None" by (simp add: demo_portfolio)
  note T = trigger_zero_horizon_is_default[of exact_floats "ForecastService_init None" 1
        "''job-1''" demo_world]
  show ?thesis
    using T f p demo_site_count demo_trigger_zero by blast
qed

lemma broken_has_row: "\<exists>row \<in> set (job_table (db broken_world)). job_id row = job_id demo_job"
  by code_simp

lemma broken_loop:
  "fst (forecast_sites exact_floats demo_job 2
          (portfolio_sites (db broken_world) (job_portfolio demo_job)) broken_world)
     = Some (PythonException ''Model error'')"
  by code_simp

lemma broken_loop_wrote:
  "length (result_table (db (snd (forecast_sites exact_floats demo_job 2
          (portfolio_sites (db broken_world) (job_portfolio demo_job)) broken_world)))) = 2"
  by code_simp

lemma broken_results: "result_table (db broken_world) = []"
  by code_simp

theorem process_failure_aborts_witness:
  "(\<exists>row \<in> set (job_table (db broken_world)). job_id row = job_id demo_job)
   \<and> fst (forecast_sites exact_floats demo_job 2
          (portfolio_sites (db broken_world) (job_portfolio demo_job)) broken_world)
       = Some (PythonException ''Model error'')
   \<and> length (result_table (db (snd (forecast_sites exact_floats demo_job 2
          (portfolio_sites (db broken_world) (job_portfolio demo_job)) broken_world)))) = 2
   \<and> fst (process_forecast_job exact_floats demo_job 2 broken_world)
       = Inl (ForecastServiceError ''Forecast processing failed: Model error'')
   \<and> result_table (db (snd (snd (process_forecast_job exact_floats demo_job 2 broken_world)))) = []
   \<and> job_status (fst (snd (process_forecast_job exact_floats demo_job 2 broken_world))) = Failed
   \<and> job_error_message (fst (snd (process_forecast_job exact_floats demo_job 2 broken_world)))
       = ''Model error''"
  using process_failure_aborts[OF broken_has_row broken_loop] broken_has_row broken_loop
    broken_loop_wrote broken_results
  by auto

lemma broken_invariant: "list_all job_invariant (job_table (db broken_world))"
  by code_simp

theorem job_invariant_preserved_witness:
  "list_all job_invariant (job_table (db broken_world))
   \<and> list_all job_invariant (job_table (db (snd (trigger_portfolio_forecast exact_floats
        (ForecastService_init None) 1 None ''job-2'' broken_world))))
   \<and> list_all job_invariant (job_table (db (snd (snd (process_forecast_job exact_floats
        demo_job 2 broken_world)))))
   \<and> list_all job_invariant (job_table (db (snd (cancel_forecast_job ''job-1'' broken_world))))
   \<and> list_all job_invariant (job_table (db (snd (cleanup_old_jobs 30 broken_world))))
   \<and> list_all job_invariant (job_table (db demo_world))
   \<and> fst (trigger_portfolio_forecast exact_floats (ForecastService_init None) 1 (Some 0)
          ''job-1'' demo_world) = Inr demo_job_completed
   \<and> job_invariant demo_job_completed"
proof -
  have h: "\<forall>j \<in> set (job_table (db broken_world)). job_invariant j"
    using broken_invariant by (simp add: list_all_iff)
  have h': "\<forall>j \<in> set (job_table (db demo_world)). job_invariant j"
    by (simp add: demo_no_jobs)
  have "job_invariant demo_job_completed"
    using job_invariant_preserved[OF h', of exact_floats "ForecastService_init None" 1 "Some 0"
        "''job-1''" demo_job 2 "''job-1''" 30] demo_trigger_zero
    by blast
  then show ?thesis
    using job_invariant_preserved[OF h, of exact_floats "ForecastService_init None" 1 None
        "''job-2''" demo_job 2 "''job-1''" 30] broken_invariant demo_trigger_zero demo_no_jobs
    by (simp add: list_all_iff)
qed


section \<open>Properties of get\_portfolio\_forecast\_results\<close>

lemma add_forecast_fn: "add_forecast v = (\<lambda>e. e\<lparr>sf_forecasts := sf_forecasts e @ [v]\<rparr>)"
  by (rule ext) (simp add: add_forecast_def)

lemma add_total_fn:
  "add_total fo v =
     (\<lambda>t. t\<lparr>total_predicted_mwh := fadd fo (total_predicted_mwh t) (fd_predicted_generation_mwh v),
       total_confidence_lower := fadd fo (total_confidence_lower t) (fd_confidence_interval_lower v),
       total_confidence_upper := fadd fo (total_confidence_upper t) (fd_confidence_interval_upper v)\<rparr>)"
  by (rule ext) (simp add: add_total_def)

lemma collect_result_split:
  "collect_result fo (sf, tot) x = (collect_site fo sf x, collect_total fo tot x)"
  by (cases x)
     (simp add: collect_result_def collect_site_def collect_total_def Let_def
        new_site_forecast_def add_forecast_fn zero_total_def add_total_fn)

lemma foldl_collect:
  "foldl (collect_result fo) (sf, tot) xs
     = (foldl (collect_site fo) sf xs, foldl (collect_total fo) tot xs)"
  by (induction xs arbitrary: sf tot) (simp_all add: collect_result_split)

lemma dict_set_new: "k \<notin> set (dict_keys d) \<Longrightarrow> dict_set k v d = d @ [(k, v)]"
  by (induction d) (auto simp: dict_keys_def)

lemma dict_modify_distinct:
  "distinct (dict_keys d) \<Longrightarrow>
     dict_modify k f d = map (\<lambda>p. if fst p = k then (k, f (snd p)) else p) d"
proof (induction d)
  case Nil
  then show ?case by simp
next
  case (Cons p ps)
  show ?case
  proof (cases "fst p = k")
    case True
    then have "k \<notin> fst ` set ps" using Cons.prems by (auto simp: dict_keys_def)
    then have "map (\<lambda>p. if fst p = k then (k, f (snd p)) else p) ps = ps"
      by (intro map_idI) auto
    then show ?thesis using True by simp
  next
    case False
    then show ?thesis using Cons by (simp add: dict_keys_def)
  qed
qed

lemma strict_sorted_last:
  fixes ks :: "'a::linorder list"
  assumes "sorted_wrt (<) ks" and "n \<in> set ks" and "\<forall>k \<in> set ks. k \<le> n"
  shows "\<exists>ks'. ks = ks' @ [n] \<and> n \<notin> set ks'"
proof -
  have ne: "ks \<noteq> []" using assms(2) by auto
  then have d: "ks = butlast ks @ [last ks]" by simp
  then have s: "sorted_wrt (<) (butlast ks @ [last ks])" using assms(1) by simp
  then have lt: "\<forall>k \<in> set (butlast ks). k < last ks"
    by (simp add: sorted_wrt_append)
  have "last ks \<le> n" using assms(3) ne by simp
  then have "n \<notin> set (butlast ks)" using lt by auto
  moreover have "n = last ks"
    using assms(2) calculation d by (metis Un_iff empty_iff empty_set set_ConsD set_append)
  ultimately show ?thesis using d by metis
qed


lemma strict_sorted_distinct:
  fixes ks :: "'a::linorder list"
  shows "sorted_wrt (<) ks \<Longrightarrow> distinct ks"
  by (induction ks) auto

lemma site_invariant_step:
  assumes inv: "site_invariant fo xs sf"
    and le: "\<forall>y \<in> set xs. site_name (snd y) \<le> site_name (snd x)"
  shows "site_invariant fo (xs @ [x]) (collect_site fo sf x)"
proof -
  let ?n = "site_name (snd x)"
  let ?v = "forecast_data_of fo (fst x)"
  let ?upd = "\<lambda>p. if fst p = ?n then (?n, add_forecast ?v (snd p)) else p"
  from inv have srt: "sorted_wrt (<) (dict_keys sf)"
    and keys: "set (dict_keys sf) = (site_name \<circ> snd) ` set xs"
    and ent: "\<forall>p \<in> set sf. sf_site_name (snd p) = fst p
            \<and> sf_forecasts (snd p)
                = map (forecast_data_of fo \<circ> fst) (filter (\<lambda>x. site_name (snd x) = fst p) xs)"
    and cat: "concat (map (sf_forecasts \<circ> snd) sf) = map (forecast_data_of fo \<circ> fst) xs"
    by (simp_all add: site_invariant_def)
  have dst: "distinct (dict_keys sf)" using srt by (rule strict_sorted_distinct)
  have kle: "\<forall>k \<in> set (dict_keys sf). k \<le> ?n" using keys le by auto
  show ?thesis
  proof (cases "?n \<in> set (dict_keys sf)")
    case True
    from strict_sorted_last[OF srt True kle] obtain ks' where ks':
      "dict_keys sf = ks' @ [?n]" "?n \<notin> set ks'" by blast
    then have "sf \<noteq> []" by (auto simp: dict_keys_def)
    then have sfd: "sf = butlast sf @ [last sf]" by simp
    have "butlast (map fst sf) = ks'" using ks'(1) by (simp add: dict_keys_def)
    then have kb: "map fst (butlast sf) = ks'" by (simp add: map_butlast)
    have "last (map fst sf) = ?n" using ks'(1) by (simp add: dict_keys_def)
    then have kl: "fst (last sf) = ?n" using \<open>sf \<noteq> []\<close> by (simp add: last_map)
    have cs: "collect_site fo sf x = map ?upd sf"
      using True dst by (simp add: collect_site_def dict_modify_distinct)
    have mb: "map ?upd (butlast sf) = butlast sf"
    proof (rule map_idI)
      fix p assume "p \<in> set (butlast sf)"
      then have "fst p \<in> set ks'" using kb by force
      then show "?upd p = p" using ks'(2) by auto
    qed
    have cs2: "collect_site fo sf x = butlast sf @ [(?n, add_forecast ?v (snd (last sf)))]"
      unfolding cs by (subst sfd) (simp add: mb kl)
    have k2: "dict_keys (collect_site fo sf x) = dict_keys sf"
      unfolding cs by (simp add: dict_keys_def comp_def cong: map_cong)
    have a: "sorted_wrt (<) (dict_keys (collect_site fo sf x))" using srt k2 by simp
    have b: "set (dict_keys (collect_site fo sf x)) = (site_name \<circ> snd) ` set (xs @ [x])"
      using keys k2 True by auto
    have c: "\<forall>p \<in> set (collect_site fo sf x). sf_site_name (snd p) = fst p
            \<and> sf_forecasts (snd p)
                = map (forecast_data_of fo \<circ> fst)
                    (filter (\<lambda>y. site_name (snd y) = fst p) (xs @ [x]))"
    proof
      fix q assume "q \<in> set (collect_site fo sf x)"
      then have "q \<in> ?upd ` set sf" unfolding cs by simp
      then obtain p where p: "p \<in> set sf" "q = ?upd p" by (rule imageE)
      from ent p(1) have e: "sf_site_name (snd p) = fst p"
        "sf_forecasts (snd p)
           = map (forecast_data_of fo \<circ> fst) (filter (\<lambda>x. site_name (snd x) = fst p) xs)"
        by blast+
      show "sf_site_name (snd q) = fst q
            \<and> sf_forecasts (snd q)
                = map (forecast_data_of fo \<circ> fst)
                    (filter (\<lambda>y. site_name (snd y) = fst q) (xs @ [x]))"
      proof (cases "fst p = ?n")
        case True
        then show ?thesis using e p(2) by (simp add: add_forecast_def)
      next
        case False
        then show ?thesis using e p(2) by simp
      qed
    qed
    have "concat (map (sf_forecasts \<circ> snd) sf)
        = concat (map (sf_forecasts \<circ> snd) (butlast sf)) @ sf_forecasts (snd (last sf))"
      by (subst sfd) simp
    then have d: "concat (map (sf_forecasts \<circ> snd) (collect_site fo sf x))
        = map (forecast_data_of fo \<circ> fst) (xs @ [x])"
      unfolding cs2 using cat by (simp add: add_forecast_def)
    show ?thesis using a b c d by (simp add: site_invariant_def)
  next
    case False
    have cs: "collect_site fo sf x
        = sf @ [(?n, add_forecast ?v (new_site_forecast fo (snd x)))]"
    proof -
      have "map ?upd sf = sf"
      proof (rule map_idI)
        fix p assume "p \<in> set sf"
        then have "fst p \<in> set (dict_keys sf)" by (simp add: dict_keys_def)
        then show "?upd p = p" using False by auto
      qed
      moreover have "distinct (dict_keys (sf @ [(?n, new_site_forecast fo (snd x))]))"
        using dst False by (simp add: dict_keys_def)
      ultimately show ?thesis
        using False by (simp add: collect_site_def dict_set_new dict_modify_distinct)
    qed
    have lt: "\<forall>k \<in> set (dict_keys sf). k < ?n"
    proof
      fix k assume k: "k \<in> set (dict_keys sf)"
      then have "k \<le> ?n" using kle by blast
      moreover have "k \<noteq> ?n" using k False by blast
      ultimately show "k < ?n" by (rule le_neq_trans)
    qed
    have a: "sorted_wrt (<) (dict_keys (collect_site fo sf x))"
      unfolding cs using srt lt by (simp add: dict_keys_def sorted_wrt_append)
    have "set (dict_keys (collect_site fo sf x)) = insert ?n (set (dict_keys sf))"
      unfolding cs by (simp add: dict_keys_def)
    then have b: "set (dict_keys (collect_site fo sf x)) = (site_name \<circ> snd) ` set (xs @ [x])"
      using keys by simp
    have "\<forall>y \<in> set xs. site_name (snd y) \<noteq> ?n"
    proof
      fix y assume "y \<in> set xs"
      then have "(site_name \<circ> snd) y \<in> (site_name \<circ> snd) ` set xs" by (rule imageI)
      then have "site_name (snd y) \<in> set (dict_keys sf)" using keys by simp
      then show "site_name (snd y) \<noteq> ?n" using False by auto
    qed
    then have nx: "filter (\<lambda>y. site_name (snd y) = ?n) xs = []"
      by (simp add: filter_empty_conv)
    have c: "\<forall>p \<in> set (collect_site fo sf x). sf_site_name (snd p) = fst p
            \<and> sf_forecasts (snd p)
                = map (forecast_data_of fo \<circ> fst)
                    (filter (\<lambda>y. site_name (snd y) = fst p) (xs @ [x]))"
    proof
      fix q assume "q \<in> set (collect_site fo sf x)"
      then have "q \<in> set sf \<or> q = (?n, add_forecast ?v (new_site_forecast fo (snd x)))"
        unfolding cs by auto
      then show "sf_site_name (snd q) = fst q
            \<and> sf_forecasts (snd q)
                = map (forecast_data_of fo \<circ> fst)
                    (filter (\<lambda>y. site_name (snd y) = fst q) (xs @ [x]))"
      proof
        assume q: "q \<in> set sf"
        then have "fst q \<in> set (dict_keys sf)" by (simp add: dict_keys_def)
        then have "fst q \<noteq> ?n" using False by auto
        then show ?thesis using ent q by simp
      next
        assume "q = (?n, add_forecast ?v (new_site_forecast fo (snd x)))"
        then show ?thesis using nx by (simp add: add_forecast_def new_site_forecast_def)
      qed
    qed
    have d: "concat (map (sf_forecasts \<circ> snd) (collect_site fo sf x))
        = map (forecast_data_of fo \<circ> fst) (xs @ [x])"
      unfolding cs using cat by (simp add: add_forecast_def new_site_forecast_def)
    show ?thesis using a b c d by (simp add: site_invariant_def)
  qed
qed


lemma site_invariant_foldl:
  "sorted (map (site_name \<circ> snd) xs) \<Longrightarrow> site_invariant fo xs (foldl (collect_site fo) [] xs)"
proof (induction xs rule: rev_induct)
  case Nil
  show ?case by (simp add: site_invariant_def dict_keys_def)
next
  case (snoc x xs)
  from snoc.prems have s: "sorted (map (site_name \<circ> snd) xs)"
    and le: "\<forall>y \<in> set xs. site_name (snd y) \<le> site_name (snd x)"
    by (simp_all add: sorted_append comp_def)
  from site_invariant_step[OF snoc.IH[OF s] le] show ?case by simp
qed

lemma fd_datetime_of [simp]: "fd_datetime (forecast_data_of fo r) = fr_forecast_datetime r"
  by (simp add: forecast_data_of_def)

lemma fsum_snoc: "fsum fo (xs @ [x]) = fadd fo (fsum fo xs) x"
  by (simp add: fsum_def)

lemma total_invariant_step:
  assumes inv: "total_invariant fo xs tot"
  shows "total_invariant fo (xs @ [x]) (collect_total fo tot x)"
proof -
  let ?k = "fr_forecast_datetime (fst x)"
  let ?v = "forecast_data_of fo (fst x)"
  let ?upd = "\<lambda>p. if fst p = ?k then (?k, add_total fo ?v (snd p)) else p"
  let ?F = "\<lambda>k ys. filter (\<lambda>f. fd_datetime f = k) (map (forecast_data_of fo \<circ> fst) ys)"
  let ?ok = "\<lambda>ys p. pt_datetime (snd p) = fst p
            \<and> total_predicted_mwh (snd p) = fsum fo (map fd_predicted_generation_mwh (?F (fst p) ys))
            \<and> total_confidence_lower (snd p) = fsum fo (map fd_confidence_interval_lower (?F (fst p) ys))
            \<and> total_confidence_upper (snd p) = fsum fo (map fd_confidence_interval_upper (?F (fst p) ys))"
  from inv have dst: "distinct (dict_keys tot)"
    and keys: "set (dict_keys tot) = (fr_forecast_datetime \<circ> fst) ` set xs"
    and ent: "\<forall>p \<in> set tot. ?ok xs p"
    by (simp_all add: total_invariant_def)
  have Fk: "?F ?k (xs @ [x]) = ?F ?k xs @ [?v]" by simp
  have Fo: "?F k (xs @ [x]) = ?F k xs" if "k \<noteq> ?k" for k using that by simp
  have updk: "?ok (xs @ [x]) (?k, add_total fo ?v t)" if "?ok xs (?k, t)" for t
    using that unfolding Fk by (simp add: add_total_def fsum_snoc)
  show ?thesis
  proof (cases "?k \<in> set (dict_keys tot)")
    case True
    have cs: "collect_total fo tot x = map ?upd tot"
      using True dst by (simp add: collect_total_def dict_modify_distinct)
    have k2: "dict_keys (collect_total fo tot x) = dict_keys tot"
      unfolding cs by (simp add: dict_keys_def comp_def cong: map_cong)
    have b: "set (dict_keys (collect_total fo tot x)) = (fr_forecast_datetime \<circ> fst) ` set (xs @ [x])"
      using keys k2 True by auto
    have c: "\<forall>q \<in> set (collect_total fo tot x). ?ok (xs @ [x]) q"
    proof
      fix q assume "q \<in> set (collect_total fo tot x)"
      then have "q \<in> ?upd ` set tot" unfolding cs by simp
      then obtain p where p: "p \<in> set tot" "q = ?upd p" by (rule imageE)
      from ent p(1) have e: "?ok xs p" by blast
      show "?ok (xs @ [x]) q"
      proof (cases "fst p = ?k")
        case True
        then have "?ok xs (?k, snd p)" using e by simp
        from updk[OF this] show ?thesis using p(2) True by simp
      next
        case False
        then show ?thesis using e p(2) Fo[OF False] by simp
      qed
    qed
    show ?thesis using dst k2 b c by (simp add: total_invariant_def)
  next
    case False
    have cs: "collect_total fo tot x = tot @ [(?k, add_total fo ?v (zero_total ?k))]"
    proof -
      have "map ?upd tot = tot"
      proof (rule map_idI)
        fix p assume "p \<in> set tot"
        then have "fst p \<in> set (dict_keys tot)" by (simp add: dict_keys_def)
        then show "?upd p = p" using False by auto
      qed
      moreover have "distinct (dict_keys (tot @ [(?k, zero_total ?k)]))"
        using dst False by (simp add: dict_keys_def)
      ultimately show ?thesis
        using False by (simp add: collect_total_def dict_set_new dict_modify_distinct)
    qed
    have a: "distinct (dict_keys (collect_total fo tot x))"
      unfolding cs using dst False by (simp add: dict_keys_def)
    have "set (dict_keys (collect_total fo tot x)) = insert ?k (set (dict_keys tot))"
      unfolding cs by (simp add: dict_keys_def)
    then have b: "set (dict_keys (collect_total fo tot x))
        = (fr_forecast_datetime \<circ> fst) ` set (xs @ [x])"
      using keys by simp
    have "\<forall>y \<in> set xs. fr_forecast_datetime (fst y) \<noteq> ?k"
    proof
      fix y assume "y \<in> set xs"
      then have "(fr_forecast_datetime \<circ> fst) y \<in> (fr_forecast_datetime \<circ> fst) ` set xs"
        by (rule imageI)
      then have "fr_forecast_datetime (fst y) \<in> set (dict_keys tot)" using keys by simp
      then show "fr_forecast_datetime (fst y) \<noteq> ?k" using False by auto
    qed
    then have nx: "?F ?k xs = []" by (simp add: filter_empty_conv)
    have z: "?ok xs (?k, zero_total ?k)"
      using nx by (simp add: zero_total_def fsum_def)
    have c: "\<forall>q \<in> set (collect_total fo tot x). ?ok (xs @ [x]) q"
    proof
      fix q assume "q \<in> set (collect_total fo tot x)"
      then have "q \<in> set tot \<or> q = (?k, add_total fo ?v (zero_total ?k))"
        unfolding cs by auto
      then show "?ok (xs @ [x]) q"
      proof
        assume q: "q \<in> set tot"
        then have "fst q \<in> set (dict_keys tot)" by (simp add: dict_keys_def)
        then have ne: "fst q \<noteq> ?k" using False by auto
        show ?thesis using ent q Fo[OF ne] by simp
      next
        assume "q = (?k, add_total fo ?v (zero_total ?k))"
        then show ?thesis using updk[OF z] by simp
      qed
    qed
    show ?thesis using a b c by (simp add: total_invariant_def)
  qed
qed

lemma total_invariant_foldl: "total_invariant fo xs (foldl (collect_total fo) [] xs)"
proof (induction xs rule: rev_induct)
  case Nil
  show ?case by (simp add: total_invariant_def dict_keys_def)
next
  case (snoc x xs)
  from total_invariant_step[OF snoc.IH] show ?case by simp
qed


lemma results_Inr_D:
  assumes "get_portfolio_forecast_results fo d pid jid = Inr out"
  shows "\<exists>i. pf_site_forecasts out
          = dict_values (foldl (collect_site fo) [] (job_results d i))
     \<and> pf_portfolio_totals out
          = sort_key pt_datetime (dict_values (foldl (collect_total fo) [] (job_results d i)))"
  using assms
  by (auto simp: get_portfolio_forecast_results_def Let_def foldl_collect
      split: option.splits sum.splits if_splits)

lemma job_results_sorted: "sorted (map result_key (job_results d i))"
  by (simp add: job_results_def)

lemma sorted_names:
  assumes "sorted (map result_key xs)"
  shows "sorted (map (site_name \<circ> snd) xs)"
proof -
  have "sorted_wrt (\<lambda>a b. result_key a \<le> result_key b) xs"
    using assms by (simp add: sorted_map)
  then have "sorted_wrt (\<lambda>a b. site_name (snd a) \<le> site_name (snd b)) xs"
    by (rule sorted_wrt_mono_rel[rotated]) (auto simp: result_key_def)
  then show ?thesis by (simp add: sorted_map comp_def)
qed

lemma sorted_series:
  assumes "sorted (map result_key xs)"
  shows "sorted (map (fr_forecast_datetime \<circ> fst) (filter (\<lambda>x. site_name (snd x) = k) xs))"
proof -
  let ?ys = "filter (\<lambda>x. site_name (snd x) = k) xs"
  have "sorted_wrt (\<lambda>a b. result_key a \<le> result_key b) xs"
    using assms by (simp add: sorted_map)
  then have "sorted_wrt (\<lambda>a b. result_key a \<le> result_key b) ?ys"
    by (rule sorted_wrt_filter)
  then have "sorted_wrt (\<lambda>a b. fr_forecast_datetime (fst a) \<le> fr_forecast_datetime (fst b)) ?ys"
    by (rule sorted_wrt_mono_rel[rotated]) (auto simp: result_key_def)
  then show ?thesis by (simp add: sorted_map comp_def)
qed

lemma distinct_map_insort_key:
  "distinct (map f (insort_key f x xs)) \<longleftrightarrow> f x \<notin> f ` set xs \<and> distinct (map f xs)"
  by (induction xs) (auto simp: set_insort_key)

lemma distinct_map_sort_key: "distinct (map f (sort_key f xs)) \<longleftrightarrow> distinct (map f xs)"
  by (induction xs) (simp_all add: distinct_map_insort_key)


text \<open>
  Claim C4. In an output of \<open>get_portfolio_forecast_results\<close>, every entry of
  \<open>portfolio_totals\<close> holds, for its timestamp, the sum of the predicted values, and
  of the lower and of the upper bounds, of the entries of exactly that timestamp in
  the per-site series, added site after site; the timestamps of the totals are those
  of the series, each once, in ascending order; the per-site series are in the
  strict order of the site names, and each series is in the order of its timestamps.
\<close>

theorem portfolio_totals_are_sums:
  assumes "get_portfolio_forecast_results fo d pid jid = Inr out"
  shows "(\<forall>t \<in> set (pf_portfolio_totals out).
            total_predicted_mwh t
              = fsum fo (map fd_predicted_generation_mwh
                  (entries_at (pt_datetime t) (pf_site_forecasts out)))
          \<and> total_confidence_lower t
              = fsum fo (map fd_confidence_interval_lower
                  (entries_at (pt_datetime t) (pf_site_forecasts out)))
          \<and> total_confidence_upper t
              = fsum fo (map fd_confidence_interval_upper
                  (entries_at (pt_datetime t) (pf_site_forecasts out))))
     \<and> set (map pt_datetime (pf_portfolio_totals out))
          = fd_datetime ` set (concat (map sf_forecasts (pf_site_forecasts out)))
     \<and> sorted_wrt (<) (map pt_datetime (pf_portfolio_totals out))
     \<and> sorted_wrt (<) (map sf_site_name (pf_site_forecasts out))
     \<and> (\<forall>e \<in> set (pf_site_forecasts out). sorted (map fd_datetime (sf_forecasts e)))"
proof -
  from results_Inr_D[OF assms] obtain i where
    sfs: "pf_site_forecasts out = dict_values (foldl (collect_site fo) [] (job_results d i))"
    and tots: "pf_portfolio_totals out
          = sort_key pt_datetime (dict_values (foldl (collect_total fo) [] (job_results d i)))"
    by blast
  let ?xs = "job_results d i"
  let ?sf = "foldl (collect_site fo) [] ?xs"
  let ?tot = "foldl (collect_total fo) [] ?xs"
  let ?data = "map (forecast_data_of fo \<circ> fst) ?xs"
  have srt: "sorted (map result_key ?xs)" by (rule job_results_sorted)
  have si: "site_invariant fo ?xs ?sf"
    using site_invariant_foldl[OF sorted_names[OF srt]] .
  have ti: "total_invariant fo ?xs ?tot" by (rule total_invariant_foldl)
  from si have s1: "sorted_wrt (<) (dict_keys ?sf)"
    and s3: "\<forall>p \<in> set ?sf. sf_site_name (snd p) = fst p
            \<and> sf_forecasts (snd p)
                = map (forecast_data_of fo \<circ> fst) (filter (\<lambda>x. site_name (snd x) = fst p) ?xs)"
    and s4: "concat (map (sf_forecasts \<circ> snd) ?sf) = ?data"
    by (simp_all add: site_invariant_def)
  from ti have t1: "distinct (dict_keys ?tot)"
    and t2: "set (dict_keys ?tot) = (fr_forecast_datetime \<circ> fst) ` set ?xs"
    and t3: "\<forall>p \<in> set ?tot. pt_datetime (snd p) = fst p
            \<and> total_predicted_mwh (snd p)
                = fsum fo (map fd_predicted_generation_mwh (filter (\<lambda>f. fd_datetime f = fst p) ?data))
            \<and> total_confidence_lower (snd p)
                = fsum fo (map fd_confidence_interval_lower (filter (\<lambda>f. fd_datetime f = fst p) ?data))
            \<and> total_confidence_upper (snd p)
                = fsum fo (map fd_confidence_interval_upper (filter (\<lambda>f. fd_datetime f = fst p) ?data))"
    by (simp_all add: total_invariant_def)
  have cat: "concat (map sf_forecasts (pf_site_forecasts out)) = ?data"
    unfolding sfs dict_values_def using s4 by (simp add: comp_def)
  have ea: "entries_at k (pf_site_forecasts out) = filter (\<lambda>f. fd_datetime f = k) ?data" for k
    by (simp add: entries_at_def cat)
  have A: "\<forall>t \<in> set (pf_portfolio_totals out).
            total_predicted_mwh t
              = fsum fo (map fd_predicted_generation_mwh
                  (entries_at (pt_datetime t) (pf_site_forecasts out)))
          \<and> total_confidence_lower t
              = fsum fo (map fd_confidence_interval_lower
                  (entries_at (pt_datetime t) (pf_site_forecasts out)))
          \<and> total_confidence_upper t
              = fsum fo (map fd_confidence_interval_upper
                  (entries_at (pt_datetime t) (pf_site_forecasts out)))"
  proof
    fix t assume "t \<in> set (pf_portfolio_totals out)"
    then have "t \<in> snd ` set ?tot" unfolding tots dict_values_def by simp
    then obtain p where p: "p \<in> set ?tot" "t = snd p" by (rule imageE)
    from t3 p(1) have "pt_datetime (snd p) = fst p
            \<and> total_predicted_mwh (snd p)
                = fsum fo (map fd_predicted_generation_mwh (filter (\<lambda>f. fd_datetime f = fst p) ?data))
            \<and> total_confidence_lower (snd p)
                = fsum fo (map fd_confidence_interval_lower (filter (\<lambda>f. fd_datetime f = fst p) ?data))
            \<and> total_confidence_upper (snd p)
                = fsum fo (map fd_confidence_interval_upper (filter (\<lambda>f. fd_datetime f = fst p) ?data))"
      by blast
    then show "total_predicted_mwh t
              = fsum fo (map fd_predicted_generation_mwh
                  (entries_at (pt_datetime t) (pf_site_forecasts out)))
          \<and> total_confidence_lower t
              = fsum fo (map fd_confidence_interval_lower
                  (entries_at (pt_datetime t) (pf_site_forecasts out)))
          \<and> total_confidence_upper t
              = fsum fo (map fd_confidence_interval_upper
                  (entries_at (pt_datetime t) (pf_site_forecasts out)))"
      unfolding ea p(2) by simp
  qed
  have keys_t: "map pt_datetime (dict_values ?tot) = dict_keys ?tot"
    using t3 by (simp add: dict_values_def dict_keys_def)
  have B: "set (map pt_datetime (pf_portfolio_totals out))
          = fd_datetime ` set (concat (map sf_forecasts (pf_site_forecasts out)))"
  proof -
    have "set (map pt_datetime (pf_portfolio_totals out)) = set (map pt_datetime (dict_values ?tot))"
      unfolding tots by simp
    also have "\<dots> = (fr_forecast_datetime \<circ> fst) ` set ?xs" using keys_t t2 by simp
    also have "\<dots> = fd_datetime ` set ?data" by (simp add: image_image)
    finally show ?thesis unfolding cat .
  qed
  have C: "sorted_wrt (<) (map pt_datetime (pf_portfolio_totals out))"
  proof -
    have "sorted (map pt_datetime (pf_portfolio_totals out))" unfolding tots by simp
    moreover have "distinct (map pt_datetime (pf_portfolio_totals out))"
      unfolding tots using t1 keys_t by (simp add: distinct_map_sort_key)
    ultimately show ?thesis by (simp add: strict_sorted_iff)
  qed
  have keys_s: "map sf_site_name (dict_values ?sf) = dict_keys ?sf"
    using s3 by (simp add: dict_values_def dict_keys_def)
  have D: "sorted_wrt (<) (map sf_site_name (pf_site_forecasts out))"
    unfolding sfs keys_s by (rule s1)
  have E: "\<forall>e \<in> set (pf_site_forecasts out). sorted (map fd_datetime (sf_forecasts e))"
  proof
    fix e assume "e \<in> set (pf_site_forecasts out)"
    then have "e \<in> snd ` set ?sf" unfolding sfs dict_values_def by simp
    then obtain p where p: "p \<in> set ?sf" "e = snd p" by (rule imageE)
    from s3 p(1) have "sf_forecasts (snd p)
        = map (forecast_data_of fo \<circ> fst) (filter (\<lambda>x. site_name (snd x) = fst p) ?xs)"
      by blast
    then have "map fd_datetime (sf_forecasts e)
        = map (fr_forecast_datetime \<circ> fst) (filter (\<lambda>x. site_name (snd x) = fst p) ?xs)"
      unfolding p(2) by (simp add: comp_def)
    then show "sorted (map fd_datetime (sf_forecasts e))"
      using sorted_series[OF srt, of "fst p"] by simp
  qed
  show ?thesis using A B C D E by blast
qed


lemma demo_results: "get_portfolio_forecast_results exact_floats results_db 1 None = Inr demo_out"
  by code_simp

lemma demo_entries:
  "map fd_predicted_generation_mwh (entries_at 21600000000 (pf_site_forecasts demo_out)) = [10, 5]"
  by code_simp

theorem portfolio_totals_are_sums_witness:
  "get_portfolio_forecast_results exact_floats results_db 1 None = Inr demo_out
   \<and> demo_total \<in> set (pf_portfolio_totals demo_out)
   \<and> map fd_predicted_generation_mwh (entries_at 21600000000 (pf_site_forecasts demo_out))
       = [10, 5]
   \<and> total_predicted_mwh demo_total = fsum exact_floats [10, 5]
   \<and> total_predicted_mwh demo_total = 15
   \<and> map sf_site_name (pf_site_forecasts demo_out) = [''A'', ''B'']"
proof -
  have m: "demo_total \<in> set (pf_portfolio_totals demo_out)" by (simp add: demo_out_def)
  have t: "pt_datetime demo_total = 21600000000" by (simp add: demo_total_def)
  from portfolio_totals_are_sums[OF demo_results] m
  have "total_predicted_mwh demo_total
      = fsum exact_floats (map fd_predicted_generation_mwh
          (entries_at (pt_datetime demo_total) (pf_site_forecasts demo_out)))"
    by blast
  then have "total_predicted_mwh demo_total = fsum exact_floats [10, 5]"
    unfolding t demo_entries .
  moreover have "total_predicted_mwh demo_total = 15" by (simp add: demo_total_def)
  moreover have "map sf_site_name (pf_site_forecasts demo_out) = [''A'', ''B'']"
    by (simp add: demo_out_def)
  ultimately show ?thesis using demo_results m demo_entries by blast
qed

end
